theory Spec2Isabelle
  imports Main "HOL-Library.Word" "HOL-Library.AList"
begin

unbundle bit_operations_syntax

section \<open>JavaScript strings\<close>

text \<open>
  A JavaScript string is a sequence of 16-bit UTF-16 code units. The script
  \<^verbatim>\<open>generate-content.js\<close> inspects single code units only in the regular
  expression of line 75 and inside the built-ins \<^verbatim>\<open>JSON.parse\<close> and
  \<^verbatim>\<open>JSON.stringify\<close>. \<open>js\<close> turns an ASCII literal into such a string.
\<close>

type_synonym code_unit = "16 word"
type_synonym jsstring = "code_unit list"

definition js :: "string \<Rightarrow> jsstring" where
  "js = map of_char"

abbreviation (input) lbrace :: code_unit where "lbrace \<equiv> 0x7B"
abbreviation (input) rbrace :: code_unit where "rbrace \<equiv> 0x7D"
abbreviation (input) lbracket :: code_unit where "lbracket \<equiv> 0x5B"
abbreviation (input) rbracket :: code_unit where "rbracket \<equiv> 0x5D"
abbreviation (input) colon :: code_unit where "colon \<equiv> 0x3A"
abbreviation (input) comma :: code_unit where "comma \<equiv> 0x2C"
abbreviation (input) dquote :: code_unit where "dquote \<equiv> 0x22"
abbreviation (input) backslash :: code_unit where "backslash \<equiv> 0x5C"
abbreviation (input) slash :: code_unit where "slash \<equiv> 0x2F"
abbreviation (input) hyphen :: code_unit where "hyphen \<equiv> 0x2D"
abbreviation (input) linefeed :: code_unit where "linefeed \<equiv> 0x0A"

section \<open>The date string (lines 13 to 15)\<close>

text \<open>
  \<^verbatim>\<open>new Date()\<close> reads the system clock; the model takes as input the civil
  date that instant has in the zone Asia/Shanghai. With no format options,
  \<^verbatim>\<open>toLocaleDateString('zh-CN', ...)\<close> formats year, month and day as
  \<^verbatim>\<open>numeric\<close> (ECMA-402), for which the pattern of the locale zh-CN is
  \<^verbatim>\<open>y/M/d\<close>: decimal numbers without padding, separated by slashes, as in
  \<^verbatim>\<open>2024/2/2\<close>. Line 15 then replaces every slash by a hyphen. The comment of
  line 14 announces the form YYYY-MM-DD.
\<close>

record civil_date =
  year :: nat
  month :: nat
  day :: nat

fun decimal :: "nat \<Rightarrow> jsstring" where
  "decimal n =
     (if n < 10 then [of_nat (48 + n)]
      else decimal (n div 10) @ [of_nat (48 + n mod 10)])"

declare decimal.simps [simp del]

definition toLocaleDateString :: "civil_date \<Rightarrow> jsstring" where
  "toLocaleDateString d =
     decimal (year d) @ [slash] @ decimal (month d) @ [slash] @ decimal (day d)"

definition replace_slashes :: "jsstring \<Rightarrow> jsstring" where
  "replace_slashes = map (\<lambda>c. if c = slash then hyphen else c)"

definition dateStr :: "civil_date \<Rightarrow> jsstring" where
  "dateStr today = replace_slashes (toLocaleDateString today)"

section \<open>The regular expression of line 75\<close>

text \<open>
  \<^verbatim>\<open>aiReply.match(/\{[\s\S]*\}/)\<close>: the match starts at the leftmost opening
  brace; the class \<^verbatim>\<open>[\s\S]\<close> accepts every code unit and the star is greedy,
  so the match runs to the last closing brace of the text. There is no match
  (\<^verbatim>\<open>null\<close>, here \<open>None\<close>) when no closing brace follows the first opening
  brace. \<open>jsonMatch s\<close> is the matched text \<^verbatim>\<open>jsonMatch[0]\<close>.
\<close>

definition jsonMatch :: "jsstring \<Rightarrow> jsstring option" where
  "jsonMatch s =
     (let t = dropWhile (\<lambda>c. c \<noteq> lbrace) s;
          m = rev (dropWhile (\<lambda>c. c \<noteq> rbrace) (rev t))
      in if m = [] then None else Some m)"

section \<open>JSON values\<close>

text \<open>
  The values \<^verbatim>\<open>JSON.parse\<close> builds. A number keeps the characters of its
  literal: the Number value is a function of them, and the conversion to an
  IEEE double and back to text is left to a parameter of \<open>JSON_stringify\<close>.
  An object keeps its properties in creation order, each key once.
\<close>

datatype json =
    JNull
  | JBool bool
  | JNumber jsstring
  | JString jsstring
  | JArray "json list"
  | JObject "(jsstring \<times> json) list"

text \<open>
  CreateDataProperty, and the assignment \<^verbatim>\<open>obj.key = v\<close> on an ordinary
  object: an existing property keeps its place and takes the new value, a new
  property is added after the others.
\<close>

definition CreateDataProperty ::
  "(jsstring \<times> json) list \<Rightarrow> jsstring \<Rightarrow> json \<Rightarrow> (jsstring \<times> json) list" where
  "CreateDataProperty ms k v = AList.update k v ms"

section \<open>JSON.parse\<close>

subsection \<open>Tokens\<close>

datatype token =
    LBrace | RBrace | LBrack | RBrack | Colon | Comma
  | TString jsstring
  | TNumber jsstring
  | TTrue | TFalse | TNull

definition is_ws :: "code_unit \<Rightarrow> bool" where
  "is_ws c = (c = 0x09 \<or> c = 0x0A \<or> c = 0x0D \<or> c = 0x20)"

definition is_digit :: "code_unit \<Rightarrow> bool" where
  "is_digit c = (0x30 \<le> c \<and> c \<le> 0x39)"

definition hex_val :: "code_unit \<Rightarrow> code_unit option" where
  "hex_val c =
     (if 0x30 \<le> c \<and> c \<le> 0x39 then Some (c - 0x30)
      else if 0x41 \<le> c \<and> c \<le> 0x46 then Some (c - 0x37)
      else if 0x61 \<le> c \<and> c \<le> 0x66 then Some (c - 0x57)
      else None)"

text \<open>The code unit of \<^verbatim>\<open>\uXXXX\<close>, from its four hexadecimal digits.\<close>

definition hex4 :: "jsstring \<Rightarrow> code_unit option" where
  "hex4 hs =
     (case map hex_val hs of
        [Some a, Some b, Some c, Some d] \<Rightarrow> Some (((a * 16 + b) * 16 + c) * 16 + d)
      | _ \<Rightarrow> None)"

text \<open>The single-character escapes: quote, backslash, slash, b, f, n, r, t.\<close>

definition unescape :: "code_unit \<Rightarrow> code_unit option" where
  "unescape e =
     (if e = dquote then Some dquote
      else if e = backslash then Some backslash
      else if e = slash then Some slash
      else if e = 0x62 then Some 0x08
      else if e = 0x66 then Some 0x0C
      else if e = 0x6E then Some 0x0A
      else if e = 0x72 then Some 0x0D
      else if e = 0x74 then Some 0x09
      else None)"

definition push ::
  "code_unit \<Rightarrow> (jsstring \<times> jsstring) option \<Rightarrow> (jsstring \<times> jsstring) option" where
  "push c = map_option (\<lambda>(v, r). (c # v, r))"

text \<open>
  A string literal, read after its opening quote: the decoded string and the
  input that follows the closing quote. Control characters below U+0020 are
  not allowed unescaped.
\<close>

fun lex_string :: "jsstring \<Rightarrow> (jsstring \<times> jsstring) option" where
  "lex_string [] = None"
| "lex_string (c # cs) =
     (if c = dquote then Some ([], cs)
      else if c = backslash then
        (case cs of
           [] \<Rightarrow> None
         | e # r \<Rightarrow>
             if e = 0x75 then
               (case hex4 (take 4 r) of
                  None \<Rightarrow> None
                | Some u \<Rightarrow> push u (lex_string (drop 4 r)))
             else
               (case unescape e of
                  None \<Rightarrow> None
                | Some u \<Rightarrow> push u (lex_string r)))
      else if c < 0x20 then None
      else push c (lex_string cs))"

text \<open>
  A number literal: an optional minus, an integer part without leading zero,
  an optional fraction and an optional exponent. Each part returns its
  characters and the input that follows.
\<close>

definition lex_digits :: "jsstring \<Rightarrow> (jsstring \<times> jsstring) option" where
  "lex_digits s =
     (if takeWhile is_digit s = [] then None
      else Some (takeWhile is_digit s, dropWhile is_digit s))"

definition lex_int :: "jsstring \<Rightarrow> (jsstring \<times> jsstring) option" where
  "lex_int s =
     (case s of
        [] \<Rightarrow> None
      | d # r \<Rightarrow>
          if d = 0x30 then Some ([d], r)
          else if is_digit d then Some (d # takeWhile is_digit r, dropWhile is_digit r)
          else None)"

definition lex_frac :: "jsstring \<Rightarrow> (jsstring \<times> jsstring) option" where
  "lex_frac s =
     (case s of
        [] \<Rightarrow> Some ([], s)
      | c # r \<Rightarrow> if c = 0x2E then push c (lex_digits r) else Some ([], s))"

definition lex_exp :: "jsstring \<Rightarrow> (jsstring \<times> jsstring) option" where
  "lex_exp s =
     (case s of
        [] \<Rightarrow> Some ([], s)
      | c # r \<Rightarrow>
          if c = 0x65 \<or> c = 0x45 then
            (case r of
               [] \<Rightarrow> None
             | g # r' \<Rightarrow>
                 if g = 0x2B \<or> g = hyphen then push c (push g (lex_digits r'))
                 else push c (lex_digits r))
          else Some ([], s))"

definition lex_sign :: "jsstring \<Rightarrow> jsstring \<times> jsstring" where
  "lex_sign s =
     (case s of
        [] \<Rightarrow> ([], s)
      | c # r \<Rightarrow> if c = hyphen then ([c], r) else ([], s))"

definition lex_number :: "jsstring \<Rightarrow> (jsstring \<times> jsstring) option" where
  "lex_number s =
     (case lex_sign s of (sg, s1) \<Rightarrow>
       (case lex_int s1 of None \<Rightarrow> None | Some (i, s2) \<Rightarrow>
         (case lex_frac s2 of None \<Rightarrow> None | Some (f, s3) \<Rightarrow>
           (case lex_exp s3 of None \<Rightarrow> None | Some (e, s4) \<Rightarrow>
              Some (sg @ i @ f @ e, s4)))))"

lemma push_length:
  "push c x = Some (v, r) \<Longrightarrow> \<exists>v'. x = Some (v', r)"
  by (cases x) (auto simp: push_def)

lemma lex_string_length:
  "lex_string s = Some (v, r) \<Longrightarrow> length r < length s"
proof (induction s arbitrary: v r rule: lex_string.induct)
  case 1
  then show ?case by simp
next
  case (2 c cs)
  show ?case
  proof (cases "c = dquote")
    case True
    with "2.prems" show ?thesis by simp
  next
    case nq: False
    show ?thesis
    proof (cases "c = backslash")
      case True
      then obtain e r0 where cs: "cs = e # r0"
        using "2.prems" by (cases cs) auto
      show ?thesis
      proof (cases "e = 0x75")
        case u: True
        then obtain w where w: "hex4 (take 4 r0) = Some w"
          and p: "push w (lex_string (drop 4 r0)) = Some (v, r)"
          using "2.prems" True cs by (auto split: option.splits)
        from push_length [OF p] obtain v' where "lex_string (drop 4 r0) = Some (v', r)" ..
        from "2.IH"(1) [OF nq True cs u w this] show ?thesis
          using cs by simp
      next
        case nu: False
        then obtain w where w: "unescape e = Some w"
          and p: "push w (lex_string r0) = Some (v, r)"
          using "2.prems" True cs by (auto split: option.splits)
        from push_length [OF p] obtain v' where "lex_string r0 = Some (v', r)" ..
        from "2.IH"(2) [OF nq True cs nu w this] show ?thesis
          using cs by simp
      qed
    next
      case nb: False
      then have lt: "\<not> c < 0x20" and p: "push c (lex_string cs) = Some (v, r)"
        using "2.prems" nq by (auto split: if_splits)
      from push_length [OF p] obtain v' where "lex_string cs = Some (v', r)" ..
      from "2.IH"(3) [OF nq nb lt this] show ?thesis by simp
    qed
  qed
qed

lemma push_append:
  "push c x = Some (l, r) \<Longrightarrow> \<exists>l'. x = Some (l', r) \<and> l = c # l'"
  by (cases x) (auto simp: push_def)

lemma lex_digits_append:
  "lex_digits s = Some (l, r) \<Longrightarrow> l @ r = s"
  by (auto simp: lex_digits_def split: if_splits)

lemma lex_int_append:
  "lex_int s = Some (l, r) \<Longrightarrow> l @ r = s \<and> l \<noteq> []"
  by (cases s) (auto simp: lex_int_def split: if_splits)

lemma lex_frac_append:
  "lex_frac s = Some (l, r) \<Longrightarrow> l @ r = s"
  by (cases s) (auto simp: lex_frac_def split: if_splits dest!: push_append lex_digits_append)

lemma lex_exp_append:
  "lex_exp s = Some (l, r) \<Longrightarrow> l @ r = s"
  by (cases s)
    (auto simp: lex_exp_def split: if_splits list.splits dest!: push_append lex_digits_append)

lemma lex_sign_append:
  "lex_sign s = (l, r) \<Longrightarrow> l @ r = s"
  by (cases s) (auto simp: lex_sign_def split: if_splits)

lemma lex_number_append:
  "lex_number s = Some (l, r) \<Longrightarrow> l @ r = s \<and> l \<noteq> []"
  by (auto simp: lex_number_def split: prod.splits option.splits
      dest!: lex_sign_append lex_int_append lex_frac_append lex_exp_append)

lemma lex_number_length:
  "lex_number s = Some (l, r) \<Longrightarrow> length r < length s"
  using lex_number_append [of s l r] by (cases l) auto

text \<open>
  The token list of a text, or \<open>None\<close> where no token starts. White space
  (tab, line feed, carriage return, space) separates tokens and is dropped.
\<close>

definition emit :: "token \<Rightarrow> token list option \<Rightarrow> token list option" where
  "emit t = map_option (Cons t)"

function tokenize :: "jsstring \<Rightarrow> token list option" where
  "tokenize [] = Some []"
| "tokenize (c # cs) =
     (if is_ws c then tokenize cs
      else if c = lbrace then emit LBrace (tokenize cs)
      else if c = rbrace then emit RBrace (tokenize cs)
      else if c = lbracket then emit LBrack (tokenize cs)
      else if c = rbracket then emit RBrack (tokenize cs)
      else if c = colon then emit Colon (tokenize cs)
      else if c = comma then emit Comma (tokenize cs)
      else if c = dquote then
        (case lex_string cs of
           None \<Rightarrow> None
         | Some (v, r) \<Rightarrow> emit (TString v) (tokenize r))
      else if c = hyphen \<or> is_digit c then
        (case lex_number (c # cs) of
           None \<Rightarrow> None
         | Some (l, r) \<Rightarrow> emit (TNumber l) (tokenize r))
      else if take 4 (c # cs) = js ''true'' then emit TTrue (tokenize (drop 3 cs))
      else if take 5 (c # cs) = js ''false'' then emit TFalse (tokenize (drop 4 cs))
      else if take 4 (c # cs) = js ''null'' then emit TNull (tokenize (drop 3 cs))
      else None)"
  by pat_completeness auto
termination
  by (relation "measure length")
    (auto dest: lex_string_length lex_number_length)

subsection \<open>The grammar, as a machine over tokens\<close>

text \<open>
  The parser reads the tokens from left to right. Its state is the place in
  the grammar (\<open>mode\<close>) and the stack of the enclosing arrays and objects,
  each waiting for the value being read: the elements an array has so far;
  the properties an object has so far and the key whose value comes next.
\<close>

datatype ctx =
    CArr "json list"
  | CObj "(jsstring \<times> json) list" jsstring

datatype mode =
    NeedValue
  | ArrOpen
  | ObjOpen
  | InArr "json list"
  | InObj "(jsstring \<times> json) list"
  | NeedKey "(jsstring \<times> json) list"
  | NeedColon "(jsstring \<times> json) list" jsstring
  | Done json

text \<open>A finished value goes to the enclosing array or object, or is the result.\<close>

fun deliver :: "json \<Rightarrow> ctx list \<Rightarrow> mode \<times> ctx list" where
  "deliver v [] = (Done v, [])"
| "deliver v (CArr els # st) = (InArr (els @ [v]), st)"
| "deliver v (CObj ms k # st) = (InObj (CreateDataProperty ms k v), st)"

fun scalar :: "token \<Rightarrow> json option" where
  "scalar (TString s) = Some (JString s)"
| "scalar (TNumber l) = Some (JNumber l)"
| "scalar TTrue = Some (JBool True)"
| "scalar TFalse = Some (JBool False)"
| "scalar TNull = Some JNull"
| "scalar _ = None"

fun begin_value :: "token \<Rightarrow> ctx list \<Rightarrow> (mode \<times> ctx list) option" where
  "begin_value LBrace st = Some (ObjOpen, st)"
| "begin_value LBrack st = Some (ArrOpen, st)"
| "begin_value t st = map_option (\<lambda>v. deliver v st) (scalar t)"

fun step :: "mode \<times> ctx list \<Rightarrow> token \<Rightarrow> (mode \<times> ctx list) option" where
  "step (NeedValue, st) t = begin_value t st"
| "step (ArrOpen, st) t =
     (if t = RBrack then Some (deliver (JArray []) st) else begin_value t (CArr [] # st))"
| "step (ObjOpen, st) t =
     (case t of
        RBrace \<Rightarrow> Some (deliver (JObject []) st)
      | TString k \<Rightarrow> Some (NeedColon [] k, st)
      | _ \<Rightarrow> None)"
| "step (NeedKey ms, st) t =
     (case t of TString k \<Rightarrow> Some (NeedColon ms k, st) | _ \<Rightarrow> None)"
| "step (NeedColon ms k, st) t =
     (if t = Colon then Some (NeedValue, CObj ms k # st) else None)"
| "step (InArr els, st) t =
     (case t of
        Comma \<Rightarrow> Some (NeedValue, CArr els # st)
      | RBrack \<Rightarrow> Some (deliver (JArray els) st)
      | _ \<Rightarrow> None)"
| "step (InObj ms, st) t =
     (case t of
        Comma \<Rightarrow> Some (NeedKey ms, st)
      | RBrace \<Rightarrow> Some (deliver (JObject ms) st)
      | _ \<Rightarrow> None)"
| "step (Done v, st) t = None"

fun run_tokens :: "mode \<times> ctx list \<Rightarrow> token list \<Rightarrow> json option" where
  "run_tokens (m, st) [] = (case m of Done v \<Rightarrow> Some v | _ \<Rightarrow> None)"
| "run_tokens s (t # ts) =
     (case step s t of None \<Rightarrow> None | Some s' \<Rightarrow> run_tokens s' ts)"

text \<open>\<^verbatim>\<open>JSON.parse(text)\<close>: the value, or \<open>None\<close> for a SyntaxError.\<close>

definition JSON_parse :: "jsstring \<Rightarrow> json option" where
  "JSON_parse s =
     (case tokenize s of
        None \<Rightarrow> None
      | Some ts \<Rightarrow> run_tokens (NeedValue, []) ts)"

section \<open>JSON.stringify\<close>

text \<open>
  QuoteJSONString. Two-character escapes for backspace, tab, line feed, form
  feed, carriage return, quote and backslash; \<^verbatim>\<open>\uXXXX\<close> with lower-case
  digits for the other control characters below U+0020 and for a surrogate
  that is not part of a pair; every other code unit as it is.
\<close>

definition is_high_surrogate :: "code_unit \<Rightarrow> bool" where
  "is_high_surrogate c = (0xD800 \<le> c \<and> c \<le> 0xDBFF)"

definition is_low_surrogate :: "code_unit \<Rightarrow> bool" where
  "is_low_surrogate c = (0xDC00 \<le> c \<and> c \<le> 0xDFFF)"

definition hex_digit :: "code_unit \<Rightarrow> code_unit" where
  "hex_digit n = (if n < 10 then 0x30 + n else 0x57 + n)"

definition unicode_escape :: "code_unit \<Rightarrow> jsstring" where
  "unicode_escape c =
     [backslash, 0x75, hex_digit (drop_bit 12 c), hex_digit (drop_bit 8 c AND 0xF),
      hex_digit (drop_bit 4 c AND 0xF), hex_digit (c AND 0xF)]"

definition quote_unit :: "code_unit \<Rightarrow> jsstring" where
  "quote_unit c =
     (if c = 0x08 then [backslash, 0x62]
      else if c = 0x09 then [backslash, 0x74]
      else if c = 0x0A then [backslash, 0x6E]
      else if c = 0x0C then [backslash, 0x66]
      else if c = 0x0D then [backslash, 0x72]
      else if c = dquote then [backslash, dquote]
      else if c = backslash then [backslash, backslash]
      else if c < 0x20 then unicode_escape c
      else [c])"

fun quote_units :: "jsstring \<Rightarrow> jsstring" where
  "quote_units [] = []"
| "quote_units (c # cs) =
     (if is_high_surrogate c then
        (case cs of
           [] \<Rightarrow> unicode_escape c
         | d # r \<Rightarrow>
             if is_low_surrogate d then c # d # quote_units r
             else unicode_escape c @ quote_units cs)
      else if is_low_surrogate c then unicode_escape c @ quote_units cs
      else quote_unit c @ quote_units cs)"

definition QuoteJSONString :: "jsstring \<Rightarrow> jsstring" where
  "QuoteJSONString s = [dquote] @ quote_units s @ [dquote]"

text \<open>
  The order in which the properties of an object are listed: the keys that
  are array indices (canonical decimal numbers below \<open>2^32 - 1\<close>) in
  ascending numeric order, then the other keys in creation order.
\<close>

definition digits_val :: "jsstring \<Rightarrow> nat" where
  "digits_val k = foldl (\<lambda>a c. 10 * a + unat (c - 0x30)) 0 k"

definition array_index :: "jsstring \<Rightarrow> nat option" where
  "array_index k =
     (if k = [] \<or> \<not> list_all is_digit k then None
      else if hd k = 0x30 \<and> k \<noteq> [0x30] then None
      else if digits_val k < 4294967295 then Some (digits_val k)
      else None)"

definition EnumerableOwnProperties :: "(jsstring \<times> 'a) list \<Rightarrow> (jsstring \<times> 'a) list" where
  "EnumerableOwnProperties ms =
     sort_key (\<lambda>(k, v). the (array_index k)) (filter (\<lambda>(k, v). array_index k \<noteq> None) ms)
     @ filter (\<lambda>(k, v). array_index k = None) ms"

lemma set_EnumerableOwnProperties [simp]:
  "set (EnumerableOwnProperties ms) = set ms"
  by (auto simp: EnumerableOwnProperties_def)

fun join :: "jsstring \<Rightarrow> jsstring list \<Rightarrow> jsstring" where
  "join sep [] = []"
| "join sep [x] = x"
| "join sep (x # y # ys) = x @ sep @ join sep (y # ys)"

lemma size_property:
  "(k, v) \<in> set ms \<Longrightarrow> size v < Suc (size_list (size_prod (\<lambda>x. 0) size) ms)"
  by (induction ms) auto

text \<open>
  SerializeJSONProperty with the gap of two spaces that the third argument
  \<^verbatim>\<open>2\<close> of line 94 asks for; \<open>ind\<close> is the current indentation. \<open>ns\<close>
  prints a number literal's value as \<^verbatim>\<open>JSON.stringify\<close> does (Number::toString
  of the double, or \<^verbatim>\<open>null\<close> when it is not finite).
\<close>

definition gap :: jsstring where
  "gap = [0x20, 0x20]"

function serialize :: "(jsstring \<Rightarrow> jsstring) \<Rightarrow> jsstring \<Rightarrow> json \<Rightarrow> jsstring" where
  "serialize ns ind JNull = js ''null''"
| "serialize ns ind (JBool b) = (if b then js ''true'' else js ''false'')"
| "serialize ns ind (JNumber l) = ns l"
| "serialize ns ind (JString s) = QuoteJSONString s"
| "serialize ns ind (JArray xs) =
     (if xs = [] then js ''[]''
      else [lbracket, linefeed] @ (ind @ gap)
        @ join ([comma, linefeed] @ (ind @ gap)) (map (serialize ns (ind @ gap)) xs)
        @ [linefeed] @ ind @ [rbracket])"
| "serialize ns ind (JObject ms) =
     (if ms = [] then js ''{}''
      else [lbrace, linefeed] @ (ind @ gap)
        @ join ([comma, linefeed] @ (ind @ gap))
            (map (\<lambda>(k, v). QuoteJSONString k @ [colon, 0x20] @ serialize ns (ind @ gap) v)
               (EnumerableOwnProperties ms))
        @ [linefeed] @ ind @ [rbrace])"
  by pat_completeness auto
termination
  apply (relation "measure (\<lambda>(ns, ind, v). size v)")
    apply simp
   apply (simp add: less_Suc_eq_le size_list_estimation')
  apply (auto simp: size_property)
  done

definition JSON_stringify :: "(jsstring \<Rightarrow> jsstring) \<Rightarrow> json \<Rightarrow> jsstring" where
  "JSON_stringify ns v = serialize ns [] v"

section \<open>Writing the file as UTF-8 (line 94)\<close>

text \<open>
  The bytes \<^verbatim>\<open>fs.writeFile(path, text, 'utf8')\<close> writes for a string: a
  surrogate pair is one code point of four bytes, a surrogate outside a pair
  becomes U+FFFD.
\<close>

type_synonym byte = "8 word"

definition utf8_pair :: "code_unit \<Rightarrow> code_unit \<Rightarrow> byte list" where
  "utf8_pair h l =
     (let cp = 0x10000 + push_bit 10 (ucast (h - 0xD800)) + ucast (l - 0xDC00) :: 32 word
      in [0xF0 OR ucast (drop_bit 18 cp),
          0x80 OR ucast (drop_bit 12 cp AND 0x3F),
          0x80 OR ucast (drop_bit 6 cp AND 0x3F),
          0x80 OR ucast (cp AND 0x3F)])"

definition utf8_unit :: "code_unit \<Rightarrow> byte list" where
  "utf8_unit c =
     (if c < 0x80 then [ucast c]
      else if c < 0x800 then [0xC0 OR ucast (drop_bit 6 c), 0x80 OR ucast (c AND 0x3F)]
      else [0xE0 OR ucast (drop_bit 12 c),
            0x80 OR ucast (drop_bit 6 c AND 0x3F),
            0x80 OR ucast (c AND 0x3F)])"

fun utf8 :: "jsstring \<Rightarrow> byte list" where
  "utf8 [] = []"
| "utf8 (c # cs) =
     (if is_high_surrogate c then
        (case cs of
           [] \<Rightarrow> [0xEF, 0xBF, 0xBD]
         | d # r \<Rightarrow>
             if is_low_surrogate d then utf8_pair c d @ utf8 r
             else [0xEF, 0xBF, 0xBD] @ utf8 cs)
      else if is_low_surrogate c then [0xEF, 0xBF, 0xBD] @ utf8 cs
      else utf8_unit c @ utf8 cs)"

declare utf8.simps [simp del]

section \<open>Reading the reply out of the response (line 73)\<close>

text \<open>
  \<^verbatim>\<open>response.data.choices[0].message.content\<close> reads four properties in a
  row. A JavaScript value is a JSON value or \<^verbatim>\<open>undefined\<close> (\<open>None\<close>).
  Reading a property of \<^verbatim>\<open>undefined\<close> or \<^verbatim>\<open>null\<close> throws a TypeError. An
  object gives the value stored under the key, an array or a string gives its
  first element or character for the index \<^verbatim>\<open>0\<close>; in every other case the
  result is \<^verbatim>\<open>undefined\<close>, none of the four names being a property that
  arrays, strings, numbers or booleans inherit.
\<close>

datatype property = P_choices | P_0 | P_message | P_content

fun key_of :: "property \<Rightarrow> jsstring" where
  "key_of P_choices = js ''choices''"
| "key_of P_0 = js ''0''"
| "key_of P_message = js ''message''"
| "key_of P_content = js ''content''"

datatype syscall = Mkdir | Open | Write

text \<open>
  What the script can throw and catch:
  the \<^verbatim>\<open>Error\<close> of line 21 (\<open>MissingApiKey\<close>);
  the \<^verbatim>\<open>Error\<close> of line 77 (\<open>NoJsonFound\<close>);
  a TypeError of the runtime; the SyntaxError of \<^verbatim>\<open>JSON.parse\<close>;
  the rejection of \<^verbatim>\<open>axios.post\<close>, with its \<^verbatim>\<open>response\<close> (status and body,
  when the server answered) and whether it has a \<^verbatim>\<open>request\<close>;
  the rejection of a call of \<^verbatim>\<open>fs\<close>, with the system call that failed.
\<close>

datatype js_error =
    MissingApiKey
  | NoJsonFound
  | TypeError
  | SyntaxError
  | AxiosError "(nat \<times> json) option" bool
  | SystemError syscall

fun Get :: "json option \<Rightarrow> property \<Rightarrow> js_error + json option" where
  "Get None p = Inl TypeError"
| "Get (Some JNull) p = Inl TypeError"
| "Get (Some (JObject ms)) p = Inr (map_of ms (key_of p))"
| "Get (Some (JArray xs)) p =
     Inr (case p of P_0 \<Rightarrow> (case xs of [] \<Rightarrow> None | x # _ \<Rightarrow> Some x) | _ \<Rightarrow> None)"
| "Get (Some (JString s)) p =
     Inr (case p of P_0 \<Rightarrow> (case s of [] \<Rightarrow> None | c # _ \<Rightarrow> Some (JString [c])) | _ \<Rightarrow> None)"
| "Get (Some (JBool b)) p = Inr None"
| "Get (Some (JNumber n)) p = Inr None"

definition aiReply :: "json \<Rightarrow> js_error + json option" where
  "aiReply data =
     (case Get (Some data) P_choices of Inl e \<Rightarrow> Inl e | Inr c \<Rightarrow>
       (case Get c P_0 of Inl e \<Rightarrow> Inl e | Inr c0 \<Rightarrow>
         (case Get c0 P_message of Inl e \<Rightarrow> Inl e | Inr m \<Rightarrow>
            Get m P_content)))"

text \<open>
  \<^verbatim>\<open>aiReply.match(...)\<close> (line 75): only a string has the method
  \<^verbatim>\<open>match\<close>; on every other value the call throws a TypeError.
\<close>

fun call_match :: "json option \<Rightarrow> js_error + jsstring option" where
  "call_match (Some (JString s)) = Inr (jsonMatch s)"
| "call_match _ = Inl TypeError"

text \<open>
  \<^verbatim>\<open>healthData.date = dateStr\<close> (line 81). On an object the property is
  set. On \<^verbatim>\<open>null\<close> the assignment throws; on a number, string or boolean it
  is ignored (the script is not in strict mode); on an array it adds a
  property that is not an element, which \<^verbatim>\<open>JSON.stringify\<close> leaves out.
\<close>

fun assign_date :: "json \<Rightarrow> jsstring \<Rightarrow> js_error + json" where
  "assign_date (JObject ms) d = Inr (JObject (CreateDataProperty ms (js ''date'') (JString d)))"
| "assign_date JNull d = Inl TypeError"
| "assign_date v d = Inr v"

text \<open>Lines 73 to 81: from the response body to the object that is written.\<close>

definition healthData :: "jsstring \<Rightarrow> json \<Rightarrow> js_error + json" where
  "healthData d data =
     (case aiReply data of Inl e \<Rightarrow> Inl e | Inr reply \<Rightarrow>
       (case call_match reply of Inl e \<Rightarrow> Inl e | Inr found \<Rightarrow>
         (case found of None \<Rightarrow> Inl NoJsonFound | Some m \<Rightarrow>
           (case JSON_parse m of None \<Rightarrow> Inl SyntaxError | Some v \<Rightarrow>
              assign_date v d))))"

section \<open>The run\<close>

text \<open>
  What a run reads from outside: the clock, the environment variable
  (\<open>None\<close> when it is not set), what \<^verbatim>\<open>axios.post\<close> does with the request,
  the file system before the run, and whether \<^verbatim>\<open>fs.mkdir\<close> or
  \<^verbatim>\<open>fs.writeFile\<close> fail.

  \<^verbatim>\<open>axios.post\<close> resolves with the body of a response whose status is 2xx.
  It is rejected with an error that has a \<^verbatim>\<open>response\<close> (status and body) when
  the server answered with another status, a \<^verbatim>\<open>request\<close> and no
  \<^verbatim>\<open>response\<close> when no answer was received, and neither when the request
  could not be set up.

  Of the file system the script touches the directory \<^verbatim>\<open>data\<close> (\<open>data_dir\<close>:
  whether \<^verbatim>\<open>fs.access\<close> finds it) and the file \<^verbatim>\<open>data/today.json\<close>
  (\<open>today_json\<close>: its bytes, or \<open>None\<close> when there is no such file).
  \<^verbatim>\<open>fs.writeFile\<close> opens the file with the flag \<^verbatim>\<open>w\<close>, which truncates
  it, and then writes the bytes. It can fail before the file is open (the file
  is as before) or after some of the bytes are written.
\<close>

record request =
  bearer :: jsstring
  prompt_date :: jsstring

datatype axios_result =
    Resolved json
  | Rejected "(nat \<times> json) option" bool

record fs_state =
  data_dir :: bool
  today_json :: "byte list option"

datatype write_fault = OpenFails | WriteFailsAfter nat

record world =
  today :: civil_date
  AI_API_KEY :: "jsstring option"
  axios_post :: "request \<Rightarrow> axios_result"
  disk :: fs_state
  mkdir_fails :: bool
  writeFile_fault :: "write_fault option"

text \<open>
  The \<^verbatim>\<open>catch\<close> block (lines 98 to 113) tells three cases apart by the
  properties \<^verbatim>\<open>response\<close> and \<^verbatim>\<open>request\<close> of the error, then exits with 1.
\<close>

datatype report =
    ApiFailure nat json
  | NetworkFailure
  | ScriptFailure js_error

fun error_response :: "js_error \<Rightarrow> (nat \<times> json) option" where
  "error_response (AxiosError r q) = r"
| "error_response _ = None"

fun error_request :: "js_error \<Rightarrow> bool" where
  "error_request (AxiosError r q) = q"
| "error_request _ = False"

definition catch_block :: "js_error \<Rightarrow> report" where
  "catch_block e =
     (case error_response e of
        Some (status, body) \<Rightarrow> ApiFailure status body
      | None \<Rightarrow> if error_request e then NetworkFailure else ScriptFailure e)"

record outcome =
  exit_code :: nat
  logged :: "report option"
  posts :: "request list"
  files :: fs_state

definition failed :: "js_error \<Rightarrow> request list \<Rightarrow> fs_state \<Rightarrow> outcome" where
  "failed e ps fs = \<lparr>exit_code = 1, logged = Some (catch_block e), posts = ps, files = fs\<rparr>"

text \<open>Lines 88 to 92: \<^verbatim>\<open>fs.access\<close>, and \<^verbatim>\<open>fs.mkdir\<close> when it fails.\<close>

definition ensure_dir :: "world \<Rightarrow> fs_state \<Rightarrow> js_error + fs_state" where
  "ensure_dir w fs =
     (if data_dir fs then Inr fs
      else if mkdir_fails w then Inl (SystemError Mkdir)
      else Inr (fs\<lparr>data_dir := True\<rparr>))"

definition writeFile ::
  "world \<Rightarrow> fs_state \<Rightarrow> byte list \<Rightarrow> fs_state \<times> js_error option" where
  "writeFile w fs bytes =
     (case writeFile_fault w of
        None \<Rightarrow> (fs\<lparr>today_json := Some bytes\<rparr>, None)
      | Some OpenFails \<Rightarrow> (fs, Some (SystemError Open))
      | Some (WriteFailsAfter n) \<Rightarrow>
          (fs\<lparr>today_json := Some (take n bytes)\<rparr>, Some (SystemError Write)))"

text \<open>
  \<^verbatim>\<open>generateContent\<close>. The request carries the key and the date; the URL,
  the model name, the temperature and the timeout are constants of the script.
  \<open>posts\<close> lists the requests handed to \<^verbatim>\<open>axios.post\<close>. A run that is not
  stopped by \<^verbatim>\<open>process.exit(1)\<close> ends with the exit code 0. \<open>ns\<close> is the
  printing of numbers inside \<^verbatim>\<open>JSON.stringify\<close>.
\<close>

definition generateContent :: "(jsstring \<Rightarrow> jsstring) \<Rightarrow> world \<Rightarrow> outcome" where
  "generateContent ns w =
     (let d = dateStr (today w) in
      case AI_API_KEY w of
        None \<Rightarrow> failed MissingApiKey [] (disk w)
      | Some k \<Rightarrow>
          if k = [] then failed MissingApiKey [] (disk w)
          else
            (let req = \<lparr>bearer = k, prompt_date = d\<rparr> in
              (case axios_post w req of
                 Rejected r q \<Rightarrow> failed (AxiosError r q) [req] (disk w)
               | Resolved data \<Rightarrow>
                   (case healthData d data of
                      Inl e \<Rightarrow> failed e [req] (disk w)
                    | Inr h \<Rightarrow>
                        (case ensure_dir w (disk w) of
                           Inl e \<Rightarrow> failed e [req] (disk w)
                         | Inr fs1 \<Rightarrow>
                             (case writeFile w fs1 (utf8 (JSON_stringify ns h)) of
                                (fs2, Some e) \<Rightarrow> failed e [req] fs2
                              | (fs2, None) \<Rightarrow>
                                  \<lparr>exit_code = 0, logged = None, posts = [req],
                                    files = fs2\<rparr>))))))"

section \<open>The schema of the specification\<close>

text \<open>
  The property that claim C3 is about, not a part of the script: the
  HealthRecord of the specification is an object with the keys \<^verbatim>\<open>date\<close> and
  \<^verbatim>\<open>healthTips\<close>, where \<^verbatim>\<open>healthTips\<close> is an object with exactly the keys
  \<^verbatim>\<open>sugar\<close> (an object with \<^verbatim>\<open>dailyAmount\<close> and \<^verbatim>\<open>note\<close>), \<^verbatim>\<open>calorie\<close> (an
  object with \<^verbatim>\<open>range\<close> and \<^verbatim>\<open>tip\<close>, the range having \<^verbatim>\<open>lightActivity\<close>,
  \<^verbatim>\<open>moderateActivity\<close> and \<^verbatim>\<open>heavyActivity\<close>) and \<^verbatim>\<open>caffeine\<close> (an object with
  \<^verbatim>\<open>safeAmount\<close> and \<^verbatim>\<open>warning\<close>).
\<close>

fun keys_are :: "jsstring list \<Rightarrow> json option \<Rightarrow> bool" where
  "keys_are ks (Some (JObject ms)) = (fst ` set ms = set ks)"
| "keys_are ks _ = False"

fun sub :: "jsstring \<Rightarrow> json option \<Rightarrow> json option" where
  "sub k (Some (JObject ms)) = map_of ms k"
| "sub k _ = None"

definition healthTips_ok :: "json option \<Rightarrow> bool" where
  "healthTips_ok t =
     (keys_are [js ''sugar'', js ''calorie'', js ''caffeine''] t
      \<and> keys_are [js ''dailyAmount'', js ''note''] (sub (js ''sugar'') t)
      \<and> keys_are [js ''range'', js ''tip''] (sub (js ''calorie'') t)
      \<and> keys_are [js ''lightActivity'', js ''moderateActivity'', js ''heavyActivity'']
            (sub (js ''range'') (sub (js ''calorie'') t))
      \<and> keys_are [js ''safeAmount'', js ''warning''] (sub (js ''caffeine'') t))"

definition HealthRecord :: "json \<Rightarrow> bool" where
  "HealthRecord v =
     (keys_are [js ''date'', js ''healthTips''] (Some v)
      \<and> healthTips_ok (sub (js ''healthTips'') (Some v)))"

section \<open>Concrete runs\<close>

text \<open>The response body \<^verbatim>\<open>{"choices": [{"message": {"content": reply}}]}\<close>.\<close>

definition response_with :: "jsstring \<Rightarrow> json" where
  "response_with reply =
     JObject [(js ''choices'',
       JArray [JObject [(js ''message'', JObject [(js ''content'', JString reply)])]])]"

text \<open>
  A run on 2 February 2024 with the given key and transport; the directory
  exists and \<^verbatim>\<open>data/today.json\<close> holds the two bytes \<^verbatim>\<open>{}\<close> of an earlier run.
\<close>

definition mock_world :: "jsstring option \<Rightarrow> axios_result \<Rightarrow> world" where
  "mock_world k res =
     \<lparr>today = \<lparr>year = 2024, month = 2, day = 2\<rparr>,
      AI_API_KEY = k,
      axios_post = (\<lambda>req. res),
      disk = \<lparr>data_dir = True, today_json = Some [0x7B, 0x7D]\<rparr>,
      mkdir_fails = False,
      writeFile_fault = None\<rparr>"

text \<open>
  Another response body with the same reply: \<^verbatim>\<open>choices\<close> is an object with
  the key \<^verbatim>\<open>0\<close>, and there is a further field.
\<close>

definition response_keyed :: "jsstring \<Rightarrow> json" where
  "response_keyed reply =
     JObject [(js ''id'', JNumber (js ''7'')),
       (js ''choices'', JObject [(js ''0'',
          JObject [(js ''message'', JObject [(js ''content'', JString reply)])])])]"

text \<open>
  A second world for the same reply: another key, that response body, and no
  directory \<^verbatim>\<open>data\<close> yet.
\<close>

definition other_world :: "jsstring \<Rightarrow> world" where
  "other_world reply =
     \<lparr>today = \<lparr>year = 2024, month = 2, day = 2\<rparr>,
      AI_API_KEY = Some (js ''other''),
      axios_post = (\<lambda>req. Resolved (response_keyed reply)),
      disk = \<lparr>data_dir = False, today_json = None\<rparr>,
      mkdir_fails = False,
      writeFile_fault = None\<rparr>"

text \<open>
  The reply of the end-to-end example of the specification, whose
  \<^verbatim>\<open>healthTips\<close> the specification leaves open: prose, then an object with the
  date 2024-01-01 and a \<^verbatim>\<open>healthTips\<close> of the schema.
\<close>

definition mocked_reply :: jsstring where
  "mocked_reply = js ''Sure! {\"date\":\"2024-01-01\",\"healthTips\":{\"sugar\":{\"dailyAmount\":\"25g\",\"note\":\"less sugar\"},\"calorie\":{\"range\":{\"lightActivity\":\"1800-2000 kcal\",\"moderateActivity\":\"2000-2400 kcal\",\"heavyActivity\":\"2400-3000 kcal\"},\"tip\":\"balance intake\"},\"caffeine\":{\"safeAmount\":\"400mg\",\"warning\":\"none after 3pm\"}}}''"

definition mocked_healthTips :: json where
  "mocked_healthTips =
     JObject
      [(js ''sugar'', JObject
         [(js ''dailyAmount'', JString (js ''25g'')),
          (js ''note'', JString (js ''less sugar''))]),
       (js ''calorie'', JObject
         [(js ''range'', JObject
            [(js ''lightActivity'', JString (js ''1800-2000 kcal'')),
             (js ''moderateActivity'', JString (js ''2000-2400 kcal'')),
             (js ''heavyActivity'', JString (js ''2400-3000 kcal''))]),
          (js ''tip'', JString (js ''balance intake''))]),
       (js ''caffeine'', JObject
         [(js ''safeAmount'', JString (js ''400mg'')),
          (js ''warning'', JString (js ''none after 3pm''))])]"

section \<open>Facts about the built-ins\<close>

lemma js_Nil [simp]: "js [] = []"
  and js_Cons [simp]: "js (c # cs) = of_char c # js cs"
  by (simp_all add: js_def)

subsection \<open>The regular expression\<close>

lemma jsonMatch_SomeD:
  assumes "jsonMatch s = Some m"
  shows "\<exists>pre body post. s = pre @ [lbrace] @ body @ [rbrace] @ post
      \<and> m = [lbrace] @ body @ [rbrace] \<and> lbrace \<notin> set pre \<and> rbrace \<notin> set post"
proof -
  define pre where "pre = takeWhile (\<lambda>c. c \<noteq> lbrace) s"
  define t where "t = dropWhile (\<lambda>c. c \<noteq> lbrace) s"
  define u where "u = dropWhile (\<lambda>c. c \<noteq> rbrace) (rev t)"
  define post where "post = rev (takeWhile (\<lambda>c. c \<noteq> rbrace) (rev t))"
  have s: "s = pre @ t"
    by (simp add: pre_def t_def)
  have m: "m = rev u" and ne: "u \<noteq> []"
    using assms by (auto simp: jsonMatch_def t_def u_def Let_def split: if_splits)
  have "rev t = rev post @ u"
    by (simp add: post_def u_def)
  then have "rev (rev t) = rev (rev post @ u)"
    by simp
  then have t: "t = m @ post"
    using m by simp
  have pre: "lbrace \<notin> set pre"
    unfolding pre_def by (auto dest: set_takeWhileD)
  have post: "rbrace \<notin> set post"
    unfolding post_def by (auto dest: set_takeWhileD)
  have "hd u = rbrace"
    using ne hd_dropWhile [of "\<lambda>c. c \<noteq> rbrace" "rev t"] by (auto simp: u_def)
  then have last: "last m = rbrace"
    using ne m by (simp add: last_rev)
  have "t \<noteq> []"
    using t m ne by simp
  then have "hd t = lbrace"
    using hd_dropWhile [of "\<lambda>c. c \<noteq> lbrace" s] by (auto simp: t_def)
  then have hd: "hd m = lbrace"
    using t m ne by simp
  have "m \<noteq> []"
    using m ne by simp
  then obtain r where mr: "m = lbrace # r"
    using hd by (cases m) auto
  have "r \<noteq> []"
    using last mr by auto
  then obtain body where "r = body @ [rbrace]"
    using last mr by (cases r rule: rev_cases) auto
  with mr s t pre post show ?thesis
    by auto
qed

lemma jsonMatch_None:
  assumes "\<not> (\<exists>i j. i < j \<and> j < length s \<and> s ! i = lbrace \<and> s ! j = rbrace)"
  shows "jsonMatch s = None"
proof (rule ccontr)
  assume "jsonMatch s \<noteq> None"
  then obtain m where "jsonMatch s = Some m" by auto
  from jsonMatch_SomeD [OF this] obtain pre body post
    where s: "s = pre @ [lbrace] @ body @ [rbrace] @ post" by blast
  have "s ! length pre = lbrace"
    by (simp add: s nth_append)
  moreover have "s ! (length pre + length body + 1) = rbrace"
    by (simp add: s nth_append)
  moreover have "length pre + length body + 1 < length s"
    by (simp add: s)
  moreover have "length pre < length pre + length body + 1"
    by simp
  ultimately show False
    using assms by blast
qed

subsection \<open>A text that starts with a brace parses to an object\<close>

fun root_mode :: "mode \<Rightarrow> bool" where
  "root_mode ObjOpen = True"
| "root_mode (InObj ms) = True"
| "root_mode (NeedKey ms) = True"
| "root_mode (NeedColon ms k) = True"
| "root_mode (Done (JObject ms)) = True"
| "root_mode _ = False"

fun is_CObj :: "ctx \<Rightarrow> bool" where
  "is_CObj (CObj ms k) = True"
| "is_CObj _ = False"

fun not_done :: "mode \<Rightarrow> bool" where
  "not_done (Done v) = False"
| "not_done _ = True"

definition object_rooted :: "mode \<times> ctx list \<Rightarrow> bool" where
  "object_rooted s =
     (if snd s = [] then root_mode (fst s)
      else is_CObj (last (snd s)) \<and> not_done (fst s))"

lemma deliver_rooted:
  assumes "st \<noteq> []" and "is_CObj (last st)"
  shows "object_rooted (deliver v st)"
proof -
  from assms(1) obtain c st' where st: "st = c # st'"
    by (cases st) auto
  show ?thesis
  proof (cases "st' = []")
    case True
    with assms(2) st show ?thesis
      by (cases c) (auto simp: object_rooted_def)
  next
    case False
    with assms(2) st show ?thesis
      by (cases c) (auto simp: object_rooted_def)
  qed
qed

lemma begin_value_rooted:
  assumes "st \<noteq> []" and "is_CObj (last st)" and "begin_value t st = Some s'"
  shows "object_rooted s'"
proof (cases t)
  case LBrace
  with assms show ?thesis by (auto simp: object_rooted_def)
next
  case LBrack
  with assms show ?thesis by (auto simp: object_rooted_def)
qed (use assms deliver_rooted [OF assms(1,2)] in auto)

lemma step_rooted:
  assumes "object_rooted (m, st)" and "step (m, st) t = Some s'"
  shows "object_rooted s'"
proof (cases "st = []")
  case True
  with assms show ?thesis
    by (cases m; cases t) (auto simp: object_rooted_def split: if_splits json.splits)
next
  case False
  with assms(1) have l: "is_CObj (last st)" and nd: "not_done m"
    by (auto simp: object_rooted_def)
  have l': "is_CObj (last (c # st))" for c
    using False l by simp
  note d = deliver_rooted [OF False l]
  note b = begin_value_rooted [OF False l]
  have b': "begin_value t (c # st) = Some s' \<Longrightarrow> object_rooted s'" for c
    by (rule begin_value_rooted [OF _ l']) auto
  show ?thesis
  proof (cases m)
    case NeedValue
    with assms(2) b show ?thesis by auto
  next
    case ArrOpen
    with assms(2) d b' show ?thesis by (auto split: if_splits)
  next
    case ObjOpen
    with assms(2) d False l show ?thesis
      by (cases t) (auto simp: object_rooted_def)
  next
    case (InArr els)
    with assms(2) d False l show ?thesis
      by (cases t) (auto simp: object_rooted_def)
  next
    case (InObj ms)
    with assms(2) d False l show ?thesis
      by (cases t) (auto simp: object_rooted_def)
  next
    case (NeedKey ms)
    with assms(2) False l show ?thesis
      by (cases t) (auto simp: object_rooted_def)
  next
    case (NeedColon ms k)
    with assms(2) False l show ?thesis
      by (auto simp: object_rooted_def split: if_splits)
  next
    case (Done v)
    with assms(2) show ?thesis by simp
  qed
qed

lemma run_tokens_rooted:
  "object_rooted s \<Longrightarrow> run_tokens s ts = Some v \<Longrightarrow> \<exists>ms. v = JObject ms"
proof (induction ts arbitrary: s)
  case Nil
  obtain m st where s: "s = (m, st)" by (cases s)
  with Nil show ?case
    by (cases m; cases v) (auto simp: object_rooted_def split: if_splits)
next
  case (Cons t ts)
  obtain m st where s: "s = (m, st)" by (cases s)
  with Cons.prems obtain s' where "step (m, st) t = Some s'" and "run_tokens s' ts = Some v"
    by (auto split: option.splits)
  with Cons.IH [of s'] step_rooted [of m st t s'] Cons.prems(1) s show ?case
    by simp
qed

lemma tokenize_lbrace: "tokenize (lbrace # cs) = emit LBrace (tokenize cs)"
  by (simp add: is_ws_def)

declare tokenize.simps [simp del]

lemma JSON_parse_brace:
  assumes "JSON_parse (lbrace # cs) = Some v"
  shows "\<exists>ms. v = JObject ms"
proof -
  from assms obtain ts where "tokenize cs = Some ts"
    and "run_tokens (NeedValue, []) (LBrace # ts) = Some v"
    by (auto simp: JSON_parse_def tokenize_lbrace emit_def split: option.splits)
  then have "run_tokens (ObjOpen, []) ts = Some v"
    by simp
  moreover have "object_rooted (ObjOpen, [])"
    by (simp add: object_rooted_def)
  ultimately show ?thesis
    by (rule run_tokens_rooted [rotated])
qed

subsection \<open>The object that is parsed has each key once\<close>

fun keys_once :: "json \<Rightarrow> bool" where
  "keys_once (JObject ms) = distinct (map fst ms)"
| "keys_once _ = True"

fun mode_once :: "mode \<Rightarrow> bool" where
  "mode_once (InObj ms) = distinct (map fst ms)"
| "mode_once (NeedKey ms) = distinct (map fst ms)"
| "mode_once (NeedColon ms k) = distinct (map fst ms)"
| "mode_once (Done v) = keys_once v"
| "mode_once _ = True"

fun ctx_once :: "ctx \<Rightarrow> bool" where
  "ctx_once (CObj ms k) = distinct (map fst ms)"
| "ctx_once (CArr els) = True"

definition state_once :: "mode \<times> ctx list \<Rightarrow> bool" where
  "state_once s = (mode_once (fst s) \<and> list_all ctx_once (snd s))"

lemma deliver_once:
  "keys_once v \<Longrightarrow> list_all ctx_once st \<Longrightarrow> state_once (deliver v st)"
  by (cases "(v, st)" rule: deliver.cases)
    (auto simp: state_once_def CreateDataProperty_def distinct_update)

lemma scalar_once: "scalar t = Some v \<Longrightarrow> keys_once v"
  by (cases t) auto

lemma begin_value_once:
  assumes "list_all ctx_once st" and "begin_value t st = Some s'"
  shows "state_once s'"
proof (cases t)
  case LBrace
  with assms show ?thesis by (auto simp: state_once_def)
next
  case LBrack
  with assms show ?thesis by (auto simp: state_once_def)
qed (use assms deliver_once [OF _ assms(1)] in auto)

lemma step_once:
  assumes "state_once (m, st)" and "step (m, st) t = Some s'"
  shows "state_once s'"
proof -
  from assms(1) have m: "mode_once m" and st: "list_all ctx_once st"
    by (auto simp: state_once_def)
  note d = deliver_once [OF _ st]
  note b = begin_value_once [OF st]
  have "list_all ctx_once (CArr [] # st)"
    using st by simp
  note b' = begin_value_once [OF this]
  show ?thesis
  proof (cases m)
    case NeedValue
    with assms(2) b show ?thesis by auto
  next
    case ArrOpen
    with assms(2) d [of "JArray []"] b' show ?thesis by (auto split: if_splits)
  next
    case ObjOpen
    with assms(2) d [of "JObject []"] st show ?thesis
      by (cases t) (auto simp: state_once_def)
  next
    case (InArr els)
    with assms(2) d [of "JArray els"] st show ?thesis
      by (cases t) (auto simp: state_once_def)
  next
    case (InObj ms)
    with assms(2) d [of "JObject ms"] m st show ?thesis
      by (cases t) (auto simp: state_once_def)
  next
    case (NeedKey ms)
    with assms(2) m st show ?thesis
      by (cases t) (auto simp: state_once_def)
  next
    case (NeedColon ms k)
    with assms(2) m st show ?thesis
      by (auto simp: state_once_def split: if_splits)
  next
    case (Done v)
    with assms(2) show ?thesis by simp
  qed
qed

lemma run_tokens_once:
  "state_once s \<Longrightarrow> run_tokens s ts = Some v \<Longrightarrow> keys_once v"
proof (induction ts arbitrary: s)
  case Nil
  obtain m st where s: "s = (m, st)" by (cases s)
  with Nil show ?case
    by (cases m) (auto simp: state_once_def)
next
  case (Cons t ts)
  obtain m st where s: "s = (m, st)" by (cases s)
  with Cons.prems obtain s' where "step (m, st) t = Some s'" and "run_tokens s' ts = Some v"
    by (auto split: option.splits)
  with Cons.IH [of s'] step_once [of m st t s'] Cons.prems(1) s show ?case
    by simp
qed

lemma JSON_parse_keys_once:
  assumes "JSON_parse s = Some (JObject ms)"
  shows "distinct (map fst ms)"
proof -
  from assms obtain ts where "run_tokens (NeedValue, []) ts = Some (JObject ms)"
    by (auto simp: JSON_parse_def split: option.splits)
  moreover have "state_once (NeedValue, [])"
    by (simp add: state_once_def)
  ultimately have "keys_once (JObject ms)"
    by (rule run_tokens_once [rotated])
  then show ?thesis by simp
qed

section \<open>Facts about the run\<close>

lemma aiReply_throws:
  "aiReply data = Inl e \<Longrightarrow> e = TypeError"
proof -
  have g: "Get v p = Inl e \<Longrightarrow> e = TypeError" for v p
    by (cases "(v, p)" rule: Get.cases) auto
  assume "aiReply data = Inl e"
  then show ?thesis
    by (auto simp: aiReply_def split: sum.splits dest: g)
qed

lemma call_match_not_string:
  "\<nexists>s. v = Some (JString s) \<Longrightarrow> call_match v = Inl TypeError"
  by (cases v rule: call_match.cases) auto

lemma call_match_Inr:
  "call_match v = Inr found \<Longrightarrow> \<exists>s. v = Some (JString s) \<and> found = jsonMatch s"
  by (cases v rule: call_match.cases) auto

lemma healthData_Inr:
  assumes "healthData d data = Inr h"
  shows "\<exists>reply m ms. aiReply data = Inr (Some (JString reply)) \<and> jsonMatch reply = Some m
    \<and> JSON_parse m = Some (JObject ms) \<and> distinct (map fst ms)
    \<and> h = JObject (CreateDataProperty ms (js ''date'') (JString d))"
proof -
  from assms obtain v found m p where a: "aiReply data = Inr v"
    and c: "call_match v = Inr found" and f: "found = Some m"
    and p: "JSON_parse m = Some p" and h: "assign_date p d = Inr h"
    by (auto simp: healthData_def split: sum.splits option.splits)
  from call_match_Inr [OF c] f obtain reply where v: "v = Some (JString reply)"
    and m: "jsonMatch reply = Some m"
    by auto
  from jsonMatch_SomeD [OF m] obtain r where "m = lbrace # r"
    by auto
  with p JSON_parse_brace obtain ms where ms: "p = JObject ms"
    by blast
  with p have "distinct (map fst ms)"
    by (auto dest: JSON_parse_keys_once)
  with a v m p h ms show ?thesis
    by auto
qed

lemma success_cases:
  assumes "exit_code (generateContent ns w) = 0"
  shows "\<exists>k data h. AI_API_KEY w = Some k \<and> k \<noteq> []
    \<and> axios_post w \<lparr>bearer = k, prompt_date = dateStr (today w)\<rparr> = Resolved data
    \<and> healthData (dateStr (today w)) data = Inr h
    \<and> today_json (files (generateContent ns w)) = Some (utf8 (JSON_stringify ns h))"
  using assms
  by (auto simp: generateContent_def failed_def ensure_dir_def writeFile_def Let_def
      split: option.splits if_splits axios_result.splits sum.splits write_fault.splits)

text \<open>
  The outcome of a run that has a key and a response, in terms of the
  response body.
\<close>

lemma run_after_response:
  assumes "AI_API_KEY w = Some k" and "k \<noteq> []"
    and "axios_post w \<lparr>bearer = k, prompt_date = dateStr (today w)\<rparr> = Resolved data"
  shows "generateContent ns w =
     (case healthData (dateStr (today w)) data of
        Inl e \<Rightarrow> failed e [\<lparr>bearer = k, prompt_date = dateStr (today w)\<rparr>] (disk w)
      | Inr h \<Rightarrow>
          (case ensure_dir w (disk w) of
             Inl e \<Rightarrow> failed e [\<lparr>bearer = k, prompt_date = dateStr (today w)\<rparr>] (disk w)
           | Inr fs1 \<Rightarrow>
               (case writeFile w fs1 (utf8 (JSON_stringify ns h)) of
                  (fs2, Some e) \<Rightarrow>
                    failed e [\<lparr>bearer = k, prompt_date = dateStr (today w)\<rparr>] fs2
                | (fs2, None) \<Rightarrow>
                    \<lparr>exit_code = 0, logged = None,
                     posts = [\<lparr>bearer = k, prompt_date = dateStr (today w)\<rparr>],
                     files = fs2\<rparr>)))"
  using assms by (simp add: generateContent_def Let_def)

lemma keys_after_update:
  assumes "k \<noteq> k'"
  shows "(keys_are [k, k'] (Some (JObject (AList.update k v ms)))
      \<and> P (sub k' (Some (JObject (AList.update k v ms)))))
    = (insert k (fst ` set ms) = {k, k'} \<and> P (map_of ms k'))"
  using assms by (simp add: dom_update update_conv')

subsection \<open>The concrete runs, evaluated\<close>

lemma aiReply_response_with [simp]:
  "aiReply (response_with reply) = Inr (Some (JString reply))"
  by (simp add: aiReply_def response_with_def)

lemma aiReply_response_keyed [simp]:
  "aiReply (response_keyed reply) = Inr (Some (JString reply))"
  by (simp add: aiReply_def response_keyed_def)

lemma mock_world_simps [simp]:
  "today (mock_world k res) = \<lparr>year = 2024, month = 2, day = 2\<rparr>"
  "AI_API_KEY (mock_world k res) = k"
  "axios_post (mock_world k res) req = res"
  "disk (mock_world k res) = \<lparr>data_dir = True, today_json = Some [0x7B, 0x7D]\<rparr>"
  "mkdir_fails (mock_world k res) = False"
  "writeFile_fault (mock_world k res) = None"
  by (simp_all add: mock_world_def)

lemmas parse_eval =
  JSON_parse_def tokenize.simps is_ws_def is_digit_def emit_def push_def
  lex_number_def lex_sign_def lex_int_def lex_frac_def lex_exp_def lex_digits_def
  hex4_def hex_val_def unescape_def CreateDataProperty_def

lemmas run_eval =
  generateContent_def healthData_def failed_def catch_block_def ensure_dir_def
  writeFile_def jsonMatch_def Let_def

lemma dateStr_2024_2_2:
  "dateStr \<lparr>year = 2024, month = 2, day = 2\<rparr> = js ''2024-2-2''"
  by (simp add: dateStr_def toLocaleDateString_def replace_slashes_def decimal.simps)

lemma run_with_other_date:
  "generateContent ns
     (mock_world (Some (js ''key''))
        (Resolved (response_with (js ''Here: {\"date\": \"1999-12-31\", \"n\": [1, 2]} Bye'')))) =
   \<lparr>exit_code = 0, logged = None,
    posts = [\<lparr>bearer = js ''key'', prompt_date = js ''2024-2-2''\<rparr>],
    files = \<lparr>data_dir = True,
      today_json = Some (utf8 (JSON_stringify ns
        (JObject [(js ''date'', JString (js ''2024-2-2'')),
                  (js ''n'', JArray [JNumber (js ''1''), JNumber (js ''2'')])])))\<rparr>\<rparr>"
  by (simp add: run_eval parse_eval dateStr_2024_2_2 Let_def)

lemma run_other_world:
  "generateContent ns (other_world (js ''Here: {\"date\": \"1999-12-31\", \"n\": [1, 2]} Bye'')) =
   \<lparr>exit_code = 0, logged = None,
    posts = [\<lparr>bearer = js ''other'', prompt_date = js ''2024-2-2''\<rparr>],
    files = \<lparr>data_dir = True,
      today_json = Some (utf8 (JSON_stringify ns
        (JObject [(js ''date'', JString (js ''2024-2-2'')),
                  (js ''n'', JArray [JNumber (js ''1''), JNumber (js ''2'')])])))\<rparr>\<rparr>"
  by (simp add: other_world_def run_eval parse_eval dateStr_2024_2_2)

lemma run_empty_object:
  "generateContent ns (mock_world (Some (js ''key'')) (Resolved (response_with (js ''{}'')))) =
   \<lparr>exit_code = 0, logged = None,
    posts = [\<lparr>bearer = js ''key'', prompt_date = js ''2024-2-2''\<rparr>],
    files = \<lparr>data_dir = True,
      today_json = Some (utf8 (JSON_stringify ns
        (JObject [(js ''date'', JString (js ''2024-2-2''))])))\<rparr>\<rparr>"
  by (simp add: run_eval parse_eval dateStr_2024_2_2)

lemma mocked_reply_parsed:
  "JSON_parse (drop 6 mocked_reply) =
     Some (JObject [(js ''date'', JString (js ''2024-01-01'')),
                    (js ''healthTips'', mocked_healthTips)])"
  by (simp add: mocked_reply_def mocked_healthTips_def parse_eval)

lemma mocked_reply_match:
  "jsonMatch mocked_reply = Some (drop 6 mocked_reply)"
  by (simp add: mocked_reply_def jsonMatch_def)

section \<open>The claims\<close>

text \<open>
  C1, as the code has it. The extraction returns the text from the first
  opening brace of the reply to its last closing brace. When the text before
  an embedded object has no opening brace and the text after it has no closing
  brace, that is exactly the object.
\<close>

theorem extraction_exact_without_stray_braces:
  assumes "lbrace \<notin> set before" and "rbrace \<notin> set after"
  shows "jsonMatch (before @ [lbrace] @ body @ [rbrace] @ after)
    = Some ([lbrace] @ body @ [rbrace])"
proof -
  have t: "dropWhile (\<lambda>c. c \<noteq> lbrace) (before @ [lbrace] @ body @ [rbrace] @ after)
      = [lbrace] @ body @ [rbrace] @ after"
    using assms(1) by (subst dropWhile_append2) auto
  have "dropWhile (\<lambda>c. c \<noteq> rbrace) (rev after @ [rbrace] @ rev body @ [lbrace])
      = [rbrace] @ rev body @ [lbrace]"
    using assms(2) by (subst dropWhile_append2) auto
  then have "rev (dropWhile (\<lambda>c. c \<noteq> rbrace) (rev ([lbrace] @ body @ [rbrace] @ after)))
      = [lbrace] @ body @ [rbrace]"
    by simp
  with t show ?thesis
    by (simp add: jsonMatch_def)
qed

theorem extraction_exact_without_stray_braces_witness:
  "lbrace \<notin> set (js ''Sure! '') \<and> rbrace \<notin> set (js '' Bye.'')
   \<and> jsonMatch (js ''Sure! '' @ [lbrace] @ js ''\"a\":{\"b\":1}'' @ [rbrace] @ js '' Bye.'')
       = Some ([lbrace] @ js ''\"a\":{\"b\":1}'' @ [rbrace])"
proof -
  have 1: "lbrace \<notin> set (js ''Sure! '')" and 2: "rbrace \<notin> set (js '' Bye.'')"
    by simp_all
  from extraction_exact_without_stray_braces [OF 1 2] 1 2 show ?thesis
    by blast
qed

text \<open>
  The claim as the specification states it fails: the reply below contains the
  well-formed object \<^verbatim>\<open>{"a":1}\<close>, followed by prose with braces of its own. The
  extraction runs on to the last closing brace, \<^verbatim>\<open>JSON.parse\<close> rejects the
  extracted text and the run fails.
\<close>

theorem extraction_overcaptures:
  "JSON_parse (js ''{\"a\":1}'') = Some (JObject [(js ''a'', JNumber (js ''1''))])
   \<and> jsonMatch (js ''{\"a\":1}'' @ js '' and {\"b\":2}'') = Some (js ''{\"a\":1} and {\"b\":2}'')
   \<and> js ''{\"a\":1} and {\"b\":2}'' \<noteq> js ''{\"a\":1}''
   \<and> logged (generateContent id (mock_world (Some (js ''key''))
          (Resolved (response_with (js ''{\"a\":1}'' @ js '' and {\"b\":2}'')))))
       = Some (ScriptFailure SyntaxError)"
  by (simp add: run_eval parse_eval)

text \<open>
  C2. After a run that ends with the exit code 0, \<^verbatim>\<open>data/today.json\<close> holds
  the serialisation of an object that has each key once and whose \<^verbatim>\<open>date\<close>
  is the date string computed from the clock, whatever the reply says.
\<close>

theorem written_date_is_local_date:
  assumes "exit_code (generateContent ns w) = 0"
  shows "\<exists>ms. today_json (files (generateContent ns w)) =
        Some (utf8 (JSON_stringify ns (JObject ms)))
    \<and> distinct (map fst ms)
    \<and> map_of ms (js ''date'') = Some (JString (dateStr (today w)))"
proof -
  from success_cases [OF assms] obtain data h
    where h: "healthData (dateStr (today w)) data = Inr h"
      and f: "today_json (files (generateContent ns w)) = Some (utf8 (JSON_stringify ns h))"
    by blast
  from healthData_Inr [OF h] obtain ms
    where "distinct (map fst ms)"
      and "h = JObject (CreateDataProperty ms (js ''date'') (JString (dateStr (today w))))"
    by blast
  with f show ?thesis
    by (auto simp: CreateDataProperty_def update_conv' distinct_update)
qed

theorem written_date_is_local_date_witness:
  "exit_code (generateContent id
     (mock_world (Some (js ''key''))
        (Resolved (response_with (js ''Here: {\"date\": \"1999-12-31\", \"n\": [1, 2]} Bye''))))) = 0
   \<and> (\<exists>ms. today_json (files (generateContent id
     (mock_world (Some (js ''key''))
        (Resolved (response_with (js ''Here: {\"date\": \"1999-12-31\", \"n\": [1, 2]} Bye'')))))) =
        Some (utf8 (JSON_stringify id (JObject ms)))
      \<and> distinct (map fst ms)
      \<and> map_of ms (js ''date'') = Some (JString (js ''2024-2-2'')))"
proof -
  have e: "exit_code (generateContent id
     (mock_world (Some (js ''key''))
        (Resolved (response_with (js ''Here: {\"date\": \"1999-12-31\", \"n\": [1, 2]} Bye''))))) = 0"
    using run_with_other_date [of id] by simp
  from written_date_is_local_date [OF e] e show ?thesis
    by (simp add: dateStr_2024_2_2)
qed

text \<open>
  C3, as the code has it. The object a successful run writes is the object
  parsed from the braces of the reply with \<^verbatim>\<open>date\<close> set; nothing is checked
  or repaired. It is a HealthRecord exactly when the reply's object has a
  \<^verbatim>\<open>healthTips\<close> of the schema and no key besides \<^verbatim>\<open>healthTips\<close> and \<^verbatim>\<open>date\<close>.
\<close>

theorem written_object_is_reply_with_date:
  assumes "exit_code (generateContent ns w) = 0"
  shows "\<exists>k data reply m ms. AI_API_KEY w = Some k
    \<and> axios_post w \<lparr>bearer = k, prompt_date = dateStr (today w)\<rparr> = Resolved data
    \<and> aiReply data = Inr (Some (JString reply))
    \<and> jsonMatch reply = Some m
    \<and> JSON_parse m = Some (JObject ms)
    \<and> today_json (files (generateContent ns w)) = Some (utf8 (JSON_stringify ns
          (JObject (CreateDataProperty ms (js ''date'') (JString (dateStr (today w)))))))
    \<and> HealthRecord (JObject (CreateDataProperty ms (js ''date'') (JString (dateStr (today w)))))
        = (insert (js ''date'') (fst ` set ms) = {js ''date'', js ''healthTips''}
           \<and> healthTips_ok (map_of ms (js ''healthTips'')))"
proof -
  from success_cases [OF assms] obtain k data h where k: "AI_API_KEY w = Some k"
    and d: "axios_post w \<lparr>bearer = k, prompt_date = dateStr (today w)\<rparr> = Resolved data"
    and h: "healthData (dateStr (today w)) data = Inr h"
    and f: "today_json (files (generateContent ns w)) = Some (utf8 (JSON_stringify ns h))"
    by blast
  from healthData_Inr [OF h] obtain reply m ms
    where r: "aiReply data = Inr (Some (JString reply))" "jsonMatch reply = Some m"
      "JSON_parse m = Some (JObject ms)"
      and h': "h = JObject (CreateDataProperty ms (js ''date'') (JString (dateStr (today w))))"
    by blast
  have ne: "js ''date'' \<noteq> js ''healthTips''"
    by simp
  have hr: "HealthRecord (JObject (CreateDataProperty ms (js ''date'') (JString v)))
        = (insert (js ''date'') (fst ` set ms) = {js ''date'', js ''healthTips''}
           \<and> healthTips_ok (map_of ms (js ''healthTips'')))" for v
    unfolding HealthRecord_def CreateDataProperty_def
    by (rule keys_after_update [OF ne, where P = healthTips_ok])
  note f' = f [unfolded h']
  show ?thesis
    by (intro exI conjI) (rule k d r f' hr)+
qed

theorem written_object_is_reply_with_date_witness:
  "exit_code (generateContent id
      (mock_world (Some (js ''key'')) (Resolved (response_with (js ''{}''))))) = 0
   \<and> (\<exists>k data reply m ms.
      AI_API_KEY (mock_world (Some (js ''key'')) (Resolved (response_with (js ''{}'')))) = Some k
    \<and> axios_post (mock_world (Some (js ''key'')) (Resolved (response_with (js ''{}''))))
        \<lparr>bearer = k, prompt_date = dateStr (today
          (mock_world (Some (js ''key'')) (Resolved (response_with (js ''{}'')))))\<rparr>
        = Resolved data
    \<and> aiReply data = Inr (Some (JString reply))
    \<and> jsonMatch reply = Some m
    \<and> JSON_parse m = Some (JObject ms)
    \<and> today_json (files (generateContent id
          (mock_world (Some (js ''key'')) (Resolved (response_with (js ''{}''))))))
        = Some (utf8 (JSON_stringify id
            (JObject (CreateDataProperty ms (js ''date'') (JString (dateStr (today
              (mock_world (Some (js ''key'')) (Resolved (response_with (js ''{}'')))))))))))
    \<and> HealthRecord
          (JObject (CreateDataProperty ms (js ''date'') (JString (dateStr (today
            (mock_world (Some (js ''key'')) (Resolved (response_with (js ''{}'')))))))))
        = (insert (js ''date'') (fst ` set ms) = {js ''date'', js ''healthTips''}
           \<and> healthTips_ok (map_of ms (js ''healthTips''))))"
proof -
  have e: "exit_code (generateContent id
      (mock_world (Some (js ''key'')) (Resolved (response_with (js ''{}''))))) = 0"
    using run_empty_object [of id] by simp
  show ?thesis
    by (rule conjI [OF e written_object_is_reply_with_date [OF e]])
qed

text \<open>
  The claim as the specification states it fails: for the reply \<^verbatim>\<open>{}\<close> the
  run succeeds and writes an object that has a \<^verbatim>\<open>date\<close> and no
  \<^verbatim>\<open>healthTips\<close>.
\<close>

theorem written_object_without_healthTips:
  "generateContent id (mock_world (Some (js ''key'')) (Resolved (response_with (js ''{}'')))) =
   \<lparr>exit_code = 0, logged = None,
    posts = [\<lparr>bearer = js ''key'', prompt_date = js ''2024-2-2''\<rparr>],
    files = \<lparr>data_dir = True,
      today_json = Some (utf8 (JSON_stringify id
        (JObject [(js ''date'', JString (js ''2024-2-2''))])))\<rparr>\<rparr>
   \<and> JSON_stringify id (JObject [(js ''date'', JString (js ''2024-2-2''))])
       = js ''{'' @ [linefeed] @ js ''  \"date\": \"2024-2-2\"'' @ [linefeed] @ js ''}''
   \<and> \<not> HealthRecord (JObject [(js ''date'', JString (js ''2024-2-2''))])"
proof -
  have "JSON_stringify id (JObject [(js ''date'', JString (js ''2024-2-2''))])
       = js ''{'' @ [linefeed] @ js ''  \"date\": \"2024-2-2\"'' @ [linefeed] @ js ''}''"
    by (simp add: JSON_stringify_def EnumerableOwnProperties_def array_index_def is_digit_def
        gap_def QuoteJSONString_def quote_unit_def is_high_surrogate_def
        is_low_surrogate_def)
  moreover have "\<not> HealthRecord (JObject [(js ''date'', JString (js ''2024-2-2''))])"
    by (auto simp: HealthRecord_def)
  ultimately show ?thesis
    using run_empty_object [of id] by simp
qed

text \<open>
  C4. When the environment variable is not set or is the empty string, the run
  throws the error of line 21 before \<^verbatim>\<open>axios.post\<close> is called: it exits with
  1, reports the missing key through the last branch of the \<^verbatim>\<open>catch\<close> block,
  has sent no request and leaves the file system as it was.
\<close>

theorem missing_key_fails_before_network:
  assumes "AI_API_KEY w = None \<or> AI_API_KEY w = Some []"
  shows "generateContent ns w =
    \<lparr>exit_code = 1, logged = Some (ScriptFailure MissingApiKey), posts = [], files = disk w\<rparr>"
  using assms by (auto simp: generateContent_def failed_def catch_block_def)

theorem missing_key_fails_before_network_witness:
  "generateContent id (mock_world None (Resolved (response_with (js ''{}'')))) =
     \<lparr>exit_code = 1, logged = Some (ScriptFailure MissingApiKey), posts = [],
      files = \<lparr>data_dir = True, today_json = Some [0x7B, 0x7D]\<rparr>\<rparr>
   \<and> generateContent id (mock_world (Some []) (Resolved (response_with (js ''{}'')))) =
     \<lparr>exit_code = 1, logged = Some (ScriptFailure MissingApiKey), posts = [],
      files = \<lparr>data_dir = True, today_json = Some [0x7B, 0x7D]\<rparr>\<rparr>"
  using missing_key_fails_before_network
      [of "mock_world None (Resolved (response_with (js ''{}'')))" id]
    missing_key_fails_before_network
      [of "mock_world (Some []) (Resolved (response_with (js ''{}'')))" id]
  by simp

text \<open>
  C5. The end-to-end example: the reply is prose followed by an object with
  the date 2024-01-01, and the clock shows 2 February 2024 in Asia/Shanghai.
  The run succeeds and copies \<^verbatim>\<open>healthTips\<close> as it is, but the \<^verbatim>\<open>date\<close> it
  writes is \<^verbatim>\<open>2024-2-2\<close>: line 15 does not pad month and day, so the file
  does not hold the \<^verbatim>\<open>2024-02-02\<close> that the comment of line 14 (YYYY-MM-DD)
  and the specification expect. The last equation shows the text of the file,
  line by line.
\<close>

theorem end_to_end_date_is_not_padded:
  "generateContent id (mock_world (Some (js ''key'')) (Resolved (response_with mocked_reply))) =
     \<lparr>exit_code = 0, logged = None,
      posts = [\<lparr>bearer = js ''key'', prompt_date = js ''2024-2-2''\<rparr>],
      files = \<lparr>data_dir = True,
        today_json = Some (utf8 (JSON_stringify id
          (JObject [(js ''date'', JString (js ''2024-2-2'')),
                    (js ''healthTips'', mocked_healthTips)])))\<rparr>\<rparr>
   \<and> JSON_parse (drop 6 mocked_reply) =
       Some (JObject [(js ''date'', JString (js ''2024-01-01'')),
                      (js ''healthTips'', mocked_healthTips)])
   \<and> js ''2024-2-2'' \<noteq> js ''2024-02-02''
   \<and> JSON_stringify id
        (JObject [(js ''date'', JString (js ''2024-2-2'')),
                  (js ''healthTips'', mocked_healthTips)])
       = join [linefeed]
          [js ''{'',
           js ''  \"date\": \"2024-2-2\",'',
           js ''  \"healthTips\": {'',
           js ''    \"sugar\": {'',
           js ''      \"dailyAmount\": \"25g\",'',
           js ''      \"note\": \"less sugar\"'',
           js ''    },'',
           js ''    \"calorie\": {'',
           js ''      \"range\": {'',
           js ''        \"lightActivity\": \"1800-2000 kcal\",'',
           js ''        \"moderateActivity\": \"2000-2400 kcal\",'',
           js ''        \"heavyActivity\": \"2400-3000 kcal\"'',
           js ''      },'',
           js ''      \"tip\": \"balance intake\"'',
           js ''    },'',
           js ''    \"caffeine\": {'',
           js ''      \"safeAmount\": \"400mg\",'',
           js ''      \"warning\": \"none after 3pm\"'',
           js ''    }'',
           js ''  }'',
           js ''}'']"
proof -
  have "healthData (js ''2024-2-2'') (response_with mocked_reply) =
      Inr (JObject [(js ''date'', JString (js ''2024-2-2'')),
                    (js ''healthTips'', mocked_healthTips)])"
    by (simp add: healthData_def mocked_reply_match mocked_reply_parsed
        CreateDataProperty_def)
  then have run: "generateContent id
      (mock_world (Some (js ''key'')) (Resolved (response_with mocked_reply))) =
     \<lparr>exit_code = 0, logged = None,
      posts = [\<lparr>bearer = js ''key'', prompt_date = js ''2024-2-2''\<rparr>],
      files = \<lparr>data_dir = True,
        today_json = Some (utf8 (JSON_stringify id
          (JObject [(js ''date'', JString (js ''2024-2-2'')),
                    (js ''healthTips'', mocked_healthTips)])))\<rparr>\<rparr>"
    by (simp add: generateContent_def dateStr_2024_2_2 ensure_dir_def writeFile_def Let_def)
  have ne: "js ''2024-2-2'' \<noteq> js ''2024-02-02''"
    by simp
  have lines: "JSON_stringify id
        (JObject [(js ''date'', JString (js ''2024-2-2'')),
                  (js ''healthTips'', mocked_healthTips)])
       = join [linefeed]
          [js ''{'',
           js ''  \"date\": \"2024-2-2\",'',
           js ''  \"healthTips\": {'',
           js ''    \"sugar\": {'',
           js ''      \"dailyAmount\": \"25g\",'',
           js ''      \"note\": \"less sugar\"'',
           js ''    },'',
           js ''    \"calorie\": {'',
           js ''      \"range\": {'',
           js ''        \"lightActivity\": \"1800-2000 kcal\",'',
           js ''        \"moderateActivity\": \"2000-2400 kcal\",'',
           js ''        \"heavyActivity\": \"2400-3000 kcal\"'',
           js ''      },'',
           js ''      \"tip\": \"balance intake\"'',
           js ''    },'',
           js ''    \"caffeine\": {'',
           js ''      \"safeAmount\": \"400mg\",'',
           js ''      \"warning\": \"none after 3pm\"'',
           js ''    }'',
           js ''  }'',
           js ''}'']"
    by (simp add: mocked_healthTips_def JSON_stringify_def EnumerableOwnProperties_def
        array_index_def is_digit_def gap_def QuoteJSONString_def quote_unit_def
        is_high_surrogate_def is_low_surrogate_def)
  show ?thesis
    by (intro conjI) (rule run mocked_reply_parsed ne lines)+
qed

text \<open>
  C6, as the code has it. A run ends with the exit code 0 when nothing was
  thrown and with 1 otherwise. After a failure other than a rejected write of
  \<^verbatim>\<open>fs.writeFile\<close> the file is as it was before the run. The file changes only
  after the object to write has been built from the reply, and then holds the
  first bytes of its serialisation; after a run that ends with 0 it holds all
  of them.
\<close>

theorem failure_leaves_file_unless_write_failed:
  "(exit_code (generateContent ns w) = 0 \<or> exit_code (generateContent ns w) = 1)
   \<and> (exit_code (generateContent ns w) = 0) = (logged (generateContent ns w) = None)
   \<and> (exit_code (generateContent ns w) = 1
        \<and> logged (generateContent ns w) \<noteq> Some (ScriptFailure (SystemError Write))
      \<longrightarrow> today_json (files (generateContent ns w)) = today_json (disk w))
   \<and> (today_json (files (generateContent ns w)) \<noteq> today_json (disk w)
      \<longrightarrow> (\<exists>k data h n. AI_API_KEY w = Some k
            \<and> axios_post w \<lparr>bearer = k, prompt_date = dateStr (today w)\<rparr> = Resolved data
            \<and> healthData (dateStr (today w)) data = Inr h
            \<and> today_json (files (generateContent ns w))
                = Some (take n (utf8 (JSON_stringify ns h)))))
   \<and> (exit_code (generateContent ns w) = 0
      \<longrightarrow> (\<exists>k data h. AI_API_KEY w = Some k
            \<and> axios_post w \<lparr>bearer = k, prompt_date = dateStr (today w)\<rparr> = Resolved data
            \<and> healthData (dateStr (today w)) data = Inr h
            \<and> today_json (files (generateContent ns w))
                = Some (utf8 (JSON_stringify ns h))))"
proof -
  have 5: "exit_code (generateContent ns w) = 0
      \<longrightarrow> (\<exists>k data h. AI_API_KEY w = Some k
            \<and> axios_post w \<lparr>bearer = k, prompt_date = dateStr (today w)\<rparr> = Resolved data
            \<and> healthData (dateStr (today w)) data = Inr h
            \<and> today_json (files (generateContent ns w))
                = Some (utf8 (JSON_stringify ns h)))"
    using success_cases [of ns w] by blast
  have 12: "(exit_code (generateContent ns w) = 0 \<or> exit_code (generateContent ns w) = 1)
   \<and> (exit_code (generateContent ns w) = 0) = (logged (generateContent ns w) = None)"
    by (auto simp: generateContent_def failed_def Let_def
        split: option.splits axios_result.splits sum.splits prod.splits)
  have 3: "exit_code (generateContent ns w) = 1
        \<and> logged (generateContent ns w) \<noteq> Some (ScriptFailure (SystemError Write))
      \<longrightarrow> today_json (files (generateContent ns w)) = today_json (disk w)"
    by (auto simp: generateContent_def failed_def catch_block_def ensure_dir_def
        writeFile_def Let_def
        split: option.splits axios_result.splits sum.splits if_splits write_fault.splits)
  have 4: "today_json (files (generateContent ns w)) \<noteq> today_json (disk w)
      \<longrightarrow> (\<exists>k data h n. AI_API_KEY w = Some k
            \<and> axios_post w \<lparr>bearer = k, prompt_date = dateStr (today w)\<rparr> = Resolved data
            \<and> healthData (dateStr (today w)) data = Inr h
            \<and> today_json (files (generateContent ns w))
                = Some (take n (utf8 (JSON_stringify ns h))))"
  proof
    assume ch: "today_json (files (generateContent ns w)) \<noteq> today_json (disk w)"
    then obtain k data h where k: "AI_API_KEY w = Some k"
      and d: "axios_post w \<lparr>bearer = k, prompt_date = dateStr (today w)\<rparr> = Resolved data"
      and h: "healthData (dateStr (today w)) data = Inr h"
      by (auto simp: generateContent_def failed_def Let_def
          split: option.splits axios_result.splits sum.splits if_splits)
    have "\<exists>n. today_json (files (generateContent ns w))
                = Some (take n (utf8 (JSON_stringify ns h)))"
    proof (cases "writeFile_fault w")
      case None
      with ch k d h have "today_json (files (generateContent ns w))
          = Some (take (length (utf8 (JSON_stringify ns h))) (utf8 (JSON_stringify ns h)))"
        by (auto simp: generateContent_def failed_def ensure_dir_def writeFile_def Let_def
            split: if_splits)
      then show ?thesis ..
    next
      case (Some f)
      with ch k d h show ?thesis
        by (cases f)
          (auto simp: generateContent_def failed_def ensure_dir_def writeFile_def Let_def
            split: if_splits)
    qed
    with k d h show "\<exists>k data h n. AI_API_KEY w = Some k
            \<and> axios_post w \<lparr>bearer = k, prompt_date = dateStr (today w)\<rparr> = Resolved data
            \<and> healthData (dateStr (today w)) data = Inr h
            \<and> today_json (files (generateContent ns w))
                = Some (take n (utf8 (JSON_stringify ns h)))"
      by blast
  qed
  from 12 3 4 5 show ?thesis
    by blast
qed

theorem failure_leaves_file_unless_write_failed_witness:
  "exit_code (generateContent id
      (mock_world (Some (js ''key'')) (Resolved (response_with (js ''}ok{''))))) = 1
   \<and> logged (generateContent id
      (mock_world (Some (js ''key'')) (Resolved (response_with (js ''}ok{'')))))
       \<noteq> Some (ScriptFailure (SystemError Write))
   \<and> today_json (files (generateContent id
      (mock_world (Some (js ''key'')) (Resolved (response_with (js ''}ok{''))))))
       = Some [0x7B, 0x7D]
   \<and> exit_code (generateContent id
      (other_world (js ''Here: {\"date\": \"1999-12-31\", \"n\": [1, 2]} Bye''))) = 0
   \<and> today_json (files (generateContent id
      (other_world (js ''Here: {\"date\": \"1999-12-31\", \"n\": [1, 2]} Bye''))))
       \<noteq> today_json (disk (other_world (js ''Here: {\"date\": \"1999-12-31\", \"n\": [1, 2]} Bye'')))
   \<and> (\<exists>h n. today_json (files (generateContent id
      (other_world (js ''Here: {\"date\": \"1999-12-31\", \"n\": [1, 2]} Bye''))))
       = Some (take n (utf8 (JSON_stringify id h))))"
proof -
  let ?w1 = "mock_world (Some (js ''key'')) (Resolved (response_with (js ''}ok{'')))"
  let ?w2 = "other_world (js ''Here: {\"date\": \"1999-12-31\", \"n\": [1, 2]} Bye'')"
  have a: "exit_code (generateContent id ?w1) = 1"
    and b: "logged (generateContent id ?w1) \<noteq> Some (ScriptFailure (SystemError Write))"
    by (simp_all add: run_eval)
  have c: "exit_code (generateContent id ?w2) = 0"
    and d: "today_json (files (generateContent id ?w2)) \<noteq> today_json (disk ?w2)"
    using run_other_world [of id] by (simp_all add: other_world_def)
  from failure_leaves_file_unless_write_failed [of id ?w1] a b
  have e: "today_json (files (generateContent id ?w1)) = Some [0x7B, 0x7D]"
    by simp
  from failure_leaves_file_unless_write_failed [of id ?w2] d
  have f: "\<exists>h n. today_json (files (generateContent id ?w2))
       = Some (take n (utf8 (JSON_stringify id h)))"
    by blast
  show ?thesis
    by (intro conjI) (rule a b c d e f)+
qed

text \<open>
  The claim as the specification states it fails when \<^verbatim>\<open>fs.writeFile\<close> is
  rejected after it has opened the file: the run exits with 1 and the earlier
  content of the file is gone.
\<close>

theorem failed_write_truncates_file:
  "exit_code (generateContent id
      ((mock_world (Some (js ''key'')) (Resolved (response_with (js ''{}''))))
         \<lparr>writeFile_fault := Some (WriteFailsAfter 0)\<rparr>)) = 1
   \<and> today_json (disk
      ((mock_world (Some (js ''key'')) (Resolved (response_with (js ''{}''))))
         \<lparr>writeFile_fault := Some (WriteFailsAfter 0)\<rparr>)) = Some [0x7B, 0x7D]
   \<and> today_json (files (generateContent id
      ((mock_world (Some (js ''key'')) (Resolved (response_with (js ''{}''))))
         \<lparr>writeFile_fault := Some (WriteFailsAfter 0)\<rparr>))) = Some []"
  by (simp add: mock_world_def run_eval parse_eval)

text \<open>
  C7. When the reply has no opening brace that is followed, somewhere, by a
  closing brace, the run throws the error of line 77: it exits with 1, reports
  that error and leaves the file system as it was.
\<close>

theorem reply_without_braces_fails:
  assumes "AI_API_KEY w = Some k" and "k \<noteq> []"
    and "axios_post w \<lparr>bearer = k, prompt_date = dateStr (today w)\<rparr> = Resolved data"
    and "aiReply data = Inr (Some (JString reply))"
    and "\<not> (\<exists>i j. i < j \<and> j < length reply \<and> reply ! i = lbrace \<and> reply ! j = rbrace)"
  shows "exit_code (generateContent ns w) = 1
    \<and> logged (generateContent ns w) = Some (ScriptFailure NoJsonFound)
    \<and> files (generateContent ns w) = disk w"
  using assms(1-4) jsonMatch_None [OF assms(5)]
  by (simp add: generateContent_def healthData_def failed_def catch_block_def)

theorem reply_without_braces_fails_witness:
  "exit_code (generateContent id (mock_world (Some (js ''key'')) (Resolved (response_with (js ''}ok{''))))) = 1
   \<and> logged (generateContent id (mock_world (Some (js ''key'')) (Resolved (response_with (js ''}ok{''))))) = Some (ScriptFailure NoJsonFound)
   \<and> files (generateContent id (mock_world (Some (js ''key'')) (Resolved (response_with (js ''}ok{''))))) =
      \<lparr>data_dir = True, today_json = Some [0x7B, 0x7D]\<rparr>"
proof -
  have "\<not> (\<exists>i j. i < j \<and> j < length (js ''}ok{'')
      \<and> js ''}ok{'' ! i = lbrace \<and> js ''}ok{'' ! j = rbrace)"
  proof
    assume "\<exists>i j. i < j \<and> j < length (js ''}ok{'')
      \<and> js ''}ok{'' ! i = lbrace \<and> js ''}ok{'' ! j = rbrace"
    then obtain i j where "i < j" and j: "j < 4" and "js ''}ok{'' ! i = lbrace"
      and r: "js ''}ok{'' ! j = rbrace"
      by auto
    from j consider "j = 0" | "j = 1" | "j = 2" | "j = 3"
      by arith
    then have "j = 0"
      using r by cases simp_all
    with \<open>i < j\<close> show False by simp
  qed
  from reply_without_braces_fails
    [of "mock_world (Some (js ''key'')) (Resolved (response_with (js ''}ok{'')))"
      "js ''key''" "response_with (js ''}ok{'')" "js ''}ok{''" id, OF _ _ _ _ this]
  show ?thesis by simp
qed

text \<open>
  C8. When \<^verbatim>\<open>axios.post\<close> is rejected, the run exits with 1 and leaves the
  file system as it was. A rejection without a response but with a request
  (the request was sent and no answer came: time-out, DNS or connection
  failure) is reported as a network failure; a rejection with a response is
  reported as an API failure with its status and body.
\<close>

theorem transport_failure_reported:
  assumes "AI_API_KEY w = Some k" and "k \<noteq> []"
    and "axios_post w \<lparr>bearer = k, prompt_date = dateStr (today w)\<rparr> = Rejected r q"
  shows "exit_code (generateContent ns w) = 1
    \<and> files (generateContent ns w) = disk w
    \<and> (r = None \<and> q \<longrightarrow> logged (generateContent ns w) = Some NetworkFailure)
    \<and> (\<forall>status body. r = Some (status, body) \<longrightarrow>
          logged (generateContent ns w) = Some (ApiFailure status body))"
  using assms by (auto simp: generateContent_def failed_def catch_block_def)

theorem transport_failure_reported_witness:
  "exit_code (generateContent id (mock_world (Some (js ''key'')) (Rejected None True))) = 1
   \<and> files (generateContent id (mock_world (Some (js ''key'')) (Rejected None True))) =
       \<lparr>data_dir = True, today_json = Some [0x7B, 0x7D]\<rparr>
   \<and> logged (generateContent id (mock_world (Some (js ''key'')) (Rejected None True))) =
       Some NetworkFailure
   \<and> logged (generateContent id
         (mock_world (Some (js ''key'')) (Rejected (Some (401, JString (js ''denied''))) True))) =
       Some (ApiFailure 401 (JString (js ''denied'')))"
  using transport_failure_reported
      [of "mock_world (Some (js ''key'')) (Rejected None True)" "js ''key''" None True id]
    transport_failure_reported
      [of "mock_world (Some (js ''key'')) (Rejected (Some (401, JString (js ''denied''))) True)"
        "js ''key''" "Some (401, JString (js ''denied''))" True id]
  by simp

text \<open>
  C9. Take two runs with the same clock that receive the same reply text,
  whatever their keys and the rest of their response bodies. When both end
  with the exit code 0, they leave the same bytes in \<^verbatim>\<open>data/today.json\<close>,
  whatever the earlier state of their file systems. When they also start from
  the same file system and meet the same faults of \<^verbatim>\<open>fs\<close>, they end with the
  same exit code, the same report and the same file system.
\<close>

theorem same_reply_same_bytes:
  assumes "today w1 = today w2"
    and "AI_API_KEY w1 = Some k1" and "k1 \<noteq> []"
    and "axios_post w1 \<lparr>bearer = k1, prompt_date = dateStr (today w1)\<rparr> = Resolved data1"
    and "AI_API_KEY w2 = Some k2" and "k2 \<noteq> []"
    and "axios_post w2 \<lparr>bearer = k2, prompt_date = dateStr (today w2)\<rparr> = Resolved data2"
    and "aiReply data1 = Inr (Some (JString reply))"
    and "aiReply data2 = Inr (Some (JString reply))"
  shows "(exit_code (generateContent ns w1) = 0 \<and> exit_code (generateContent ns w2) = 0
      \<longrightarrow> today_json (files (generateContent ns w1))
          = today_json (files (generateContent ns w2)))
    \<and> (disk w1 = disk w2 \<and> mkdir_fails w1 = mkdir_fails w2
        \<and> writeFile_fault w1 = writeFile_fault w2
      \<longrightarrow> exit_code (generateContent ns w1) = exit_code (generateContent ns w2)
        \<and> logged (generateContent ns w1) = logged (generateContent ns w2)
        \<and> files (generateContent ns w1) = files (generateContent ns w2))"
proof -
  have hd: "healthData (dateStr (today w1)) data1 = healthData (dateStr (today w2)) data2"
    using assms(1,8,9) by (simp add: healthData_def)
  have 1: "exit_code (generateContent ns w1) = 0 \<and> exit_code (generateContent ns w2) = 0
      \<longrightarrow> today_json (files (generateContent ns w1))
          = today_json (files (generateContent ns w2))"
  proof
    assume ok: "exit_code (generateContent ns w1) = 0 \<and> exit_code (generateContent ns w2) = 0"
    from success_cases [of ns w1] ok assms(2,4) obtain h1
      where h1: "healthData (dateStr (today w1)) data1 = Inr h1"
        and f1: "today_json (files (generateContent ns w1)) = Some (utf8 (JSON_stringify ns h1))"
      by auto
    from success_cases [of ns w2] ok assms(5,7) obtain h2
      where h2: "healthData (dateStr (today w2)) data2 = Inr h2"
        and f2: "today_json (files (generateContent ns w2)) = Some (utf8 (JSON_stringify ns h2))"
      by auto
    from hd h1 h2 have "h1 = h2" by simp
    with f1 f2 show "today_json (files (generateContent ns w1))
          = today_json (files (generateContent ns w2))"
      by simp
  qed
  have 2: "disk w1 = disk w2 \<and> mkdir_fails w1 = mkdir_fails w2
        \<and> writeFile_fault w1 = writeFile_fault w2
      \<longrightarrow> exit_code (generateContent ns w1) = exit_code (generateContent ns w2)
        \<and> logged (generateContent ns w1) = logged (generateContent ns w2)
        \<and> files (generateContent ns w1) = files (generateContent ns w2)"
  proof
    assume eq: "disk w1 = disk w2 \<and> mkdir_fails w1 = mkdir_fails w2
        \<and> writeFile_fault w1 = writeFile_fault w2"
    then have e: "ensure_dir w1 (disk w1) = ensure_dir w2 (disk w2)"
      and wf: "writeFile w1 fs b = writeFile w2 fs b" for fs b
      by (simp_all add: ensure_dir_def writeFile_def)
    show "exit_code (generateContent ns w1) = exit_code (generateContent ns w2)
        \<and> logged (generateContent ns w1) = logged (generateContent ns w2)
        \<and> files (generateContent ns w1) = files (generateContent ns w2)"
      unfolding run_after_response [OF assms(2,3,4)] run_after_response [OF assms(5,6,7)]
        hd e wf
      using eq by (simp add: failed_def split: sum.splits prod.splits option.splits)
  qed
  from 1 2 show ?thesis ..
qed

theorem same_reply_same_bytes_witness:
  "today_json (files (generateContent id
       (mock_world (Some (js ''key'')) (Resolved (response_with (js ''Here: {\"date\": \"1999-12-31\", \"n\": [1, 2]} Bye''))))))
     = today_json (files (generateContent id (other_world (js ''Here: {\"date\": \"1999-12-31\", \"n\": [1, 2]} Bye''))))
   \<and> exit_code (generateContent id
       (mock_world (Some (js ''key'')) (Resolved (response_with (js ''Here: {\"date\": \"1999-12-31\", \"n\": [1, 2]} Bye'')))))
     = exit_code (generateContent id
       (mock_world (Some (js ''other'')) (Resolved (response_keyed (js ''Here: {\"date\": \"1999-12-31\", \"n\": [1, 2]} Bye'')))))
   \<and> files (generateContent id
       (mock_world (Some (js ''key'')) (Resolved (response_with (js ''Here: {\"date\": \"1999-12-31\", \"n\": [1, 2]} Bye'')))))
     = files (generateContent id
       (mock_world (Some (js ''other'')) (Resolved (response_keyed (js ''Here: {\"date\": \"1999-12-31\", \"n\": [1, 2]} Bye'')))))"
proof -
  let ?reply = "js ''Here: {\"date\": \"1999-12-31\", \"n\": [1, 2]} Bye''"
  let ?w1 = "mock_world (Some (js ''key'')) (Resolved (response_with ?reply))"
  let ?w2 = "other_world ?reply"
  let ?w3 = "mock_world (Some (js ''other'')) (Resolved (response_keyed ?reply))"
  have t12: "today ?w1 = today ?w2" and t13: "today ?w1 = today ?w3"
    by (simp_all add: other_world_def)
  have k1: "AI_API_KEY ?w1 = Some (js ''key'')" "js ''key'' \<noteq> []"
    and k2: "AI_API_KEY ?w2 = Some (js ''other'')" "js ''other'' \<noteq> []"
    and k3: "AI_API_KEY ?w3 = Some (js ''other'')"
    by (simp_all add: other_world_def)
  have p1: "axios_post ?w1 \<lparr>bearer = js ''key'', prompt_date = dateStr (today ?w1)\<rparr>
      = Resolved (response_with ?reply)"
    and p2: "axios_post ?w2 \<lparr>bearer = js ''other'', prompt_date = dateStr (today ?w2)\<rparr>
      = Resolved (response_keyed ?reply)"
    and p3: "axios_post ?w3 \<lparr>bearer = js ''other'', prompt_date = dateStr (today ?w3)\<rparr>
      = Resolved (response_keyed ?reply)"
    by (simp_all add: other_world_def)
  have r1: "aiReply (response_with ?reply) = Inr (Some (JString ?reply))"
    and r2: "aiReply (response_keyed ?reply) = Inr (Some (JString ?reply))"
    by simp_all
  have ok: "exit_code (generateContent id ?w1) = 0 \<and> exit_code (generateContent id ?w2) = 0"
    using run_with_other_date [of id] run_other_world [of id] by simp
  have same: "disk ?w1 = disk ?w3 \<and> mkdir_fails ?w1 = mkdir_fails ?w3
      \<and> writeFile_fault ?w1 = writeFile_fault ?w3"
    by simp
  from same_reply_same_bytes [OF t12 k1 p1 k2 p2 r1 r2, of id] ok
  have a: "today_json (files (generateContent id ?w1))
      = today_json (files (generateContent id ?w2))"
    by (rule conjunct1 [THEN mp])
  from same_reply_same_bytes [OF t13 k1 p1 k3 k2(2) p3 r1 r2, of id] same
  have b: "exit_code (generateContent id ?w1) = exit_code (generateContent id ?w3)
      \<and> logged (generateContent id ?w1) = logged (generateContent id ?w3)
      \<and> files (generateContent id ?w1) = files (generateContent id ?w3)"
    by (rule conjunct2 [THEN mp])
  from a b show ?thesis
    by (intro conjI) (rule a, rule b [THEN conjunct1], rule b [THEN conjunct2, THEN conjunct2])
qed

text \<open>
  C10. When the body of a successful response has no string at
  \<^verbatim>\<open>choices[0].message.content\<close>, line 73 or line 75 throws a TypeError: the run
  exits with 1, reports it through the last branch of the \<^verbatim>\<open>catch\<close> block (not
  as an API failure) and leaves the file system as it was.
\<close>

theorem reply_not_a_string_fails:
  assumes "AI_API_KEY w = Some k" and "k \<noteq> []"
    and "axios_post w \<lparr>bearer = k, prompt_date = dateStr (today w)\<rparr> = Resolved data"
    and "\<nexists>s. aiReply data = Inr (Some (JString s))"
  shows "exit_code (generateContent ns w) = 1
    \<and> logged (generateContent ns w) = Some (ScriptFailure TypeError)
    \<and> files (generateContent ns w) = disk w"
proof -
  have "healthData (dateStr (today w)) data = Inl TypeError"
  proof (cases "aiReply data")
    case (Inl e)
    then show ?thesis
      using aiReply_throws [OF Inl] by (simp add: healthData_def)
  next
    case (Inr v)
    with assms(4) have "\<nexists>s. v = Some (JString s)" by simp
    from call_match_not_string [OF this] Inr show ?thesis
      by (simp add: healthData_def)
  qed
  with assms(1-3) show ?thesis
    by (simp add: generateContent_def failed_def catch_block_def)
qed

theorem reply_not_a_string_fails_witness:
  "exit_code (generateContent id
      (mock_world (Some (js ''key'')) (Resolved (JObject [(js ''choices'', JArray [])])))) = 1
   \<and> logged (generateContent id
      (mock_world (Some (js ''key'')) (Resolved (JObject [(js ''choices'', JArray [])])))) =
        Some (ScriptFailure TypeError)
   \<and> files (generateContent id
      (mock_world (Some (js ''key'')) (Resolved (JObject [(js ''choices'', JArray [])])))) =
        \<lparr>data_dir = True, today_json = Some [0x7B, 0x7D]\<rparr>"
proof -
  have "\<nexists>s. aiReply (JObject [(js ''choices'', JArray [])]) = Inr (Some (JString s))"
    by (simp add: aiReply_def)
  from reply_not_a_string_fails
    [of "mock_world (Some (js ''key'')) (Resolved (JObject [(js ''choices'', JArray [])]))"
      "js ''key''" "JObject [(js ''choices'', JArray [])]" id, OF _ _ _ this]
  show ?thesis by simp
qed

end
